theory Spec2Isabelle
  imports Complex_Main "HOL-Library.AList" "HOL-Library.Sublist"
begin

section \<open>JavaScript numbers\<close>

text \<open>
  A JavaScript number is modelled as a real, one of the two infinities, or NaN. Rounding of
  IEEE doubles and the negative zero are not modelled: every finite number is exact.
  A property that is absent from an object (\<open>undefined\<close>) is an \<open>option\<close> around
  the value; \<open>to_number\<close> is the conversion the arithmetic operators apply to it.
\<close>

datatype jsnum = Num real | PInf | NInf | NaN

fun to_number :: "jsnum option \<Rightarrow> jsnum" where
  "to_number None = NaN"
| "to_number (Some x) = x"

text \<open>\<open>a > b\<close>: false as soon as one side is NaN.\<close>

fun js_gt :: "jsnum \<Rightarrow> jsnum \<Rightarrow> bool" where
  "js_gt NaN _ = False"
| "js_gt _ NaN = False"
| "js_gt (Num a) (Num b) = (b < a)"
| "js_gt PInf PInf = False"
| "js_gt PInf _ = True"
| "js_gt NInf _ = False"
| "js_gt (Num a) NInf = True"
| "js_gt (Num a) PInf = False"

fun js_neg :: "jsnum \<Rightarrow> jsnum" where
  "js_neg (Num a) = Num (- a)"
| "js_neg PInf = NInf"
| "js_neg NInf = PInf"
| "js_neg NaN = NaN"

fun js_add :: "jsnum \<Rightarrow> jsnum \<Rightarrow> jsnum" where
  "js_add NaN _ = NaN"
| "js_add _ NaN = NaN"
| "js_add (Num a) (Num b) = Num (a + b)"
| "js_add PInf NInf = NaN"
| "js_add NInf PInf = NaN"
| "js_add PInf _ = PInf"
| "js_add NInf _ = NInf"
| "js_add (Num a) b = b"

definition js_sub :: "jsnum \<Rightarrow> jsnum \<Rightarrow> jsnum" where
  "js_sub a b = js_add a (js_neg b)"

text \<open>The sign of a finite number, used by multiplication and division with an infinity.\<close>

definition js_signed_inf :: "bool \<Rightarrow> jsnum" where
  "js_signed_inf positive = (if positive then PInf else NInf)"

fun js_mul :: "jsnum \<Rightarrow> jsnum \<Rightarrow> jsnum" where
  "js_mul NaN _ = NaN"
| "js_mul _ NaN = NaN"
| "js_mul (Num a) (Num b) = Num (a * b)"
| "js_mul PInf (Num b) = (if b = 0 then NaN else js_signed_inf (0 < b))"
| "js_mul NInf (Num b) = (if b = 0 then NaN else js_signed_inf (b < 0))"
| "js_mul (Num a) PInf = (if a = 0 then NaN else js_signed_inf (0 < a))"
| "js_mul (Num a) NInf = (if a = 0 then NaN else js_signed_inf (a < 0))"
| "js_mul PInf PInf = PInf"
| "js_mul NInf NInf = PInf"
| "js_mul PInf NInf = NInf"
| "js_mul NInf PInf = NInf"

fun js_div :: "jsnum \<Rightarrow> jsnum \<Rightarrow> jsnum" where
  "js_div NaN _ = NaN"
| "js_div _ NaN = NaN"
| "js_div (Num a) (Num b) =
     (if b = 0 then (if a = 0 then NaN else js_signed_inf (0 < a)) else Num (a / b))"
| "js_div (Num a) _ = Num 0"
| "js_div PInf (Num b) = js_signed_inf (0 \<le> b)"
| "js_div NInf (Num b) = js_signed_inf (b < 0)"
| "js_div _ _ = NaN"

text \<open>\<open>Math.round\<close>: the nearest integer, a tie going up.\<close>

fun js_round :: "jsnum \<Rightarrow> jsnum" where
  "js_round (Num a) = Num (of_int \<lfloor>a + 1 / 2\<rfloor>)"
| "js_round x = x"

text \<open>\<open>Math.max\<close> of two numbers: NaN as soon as one argument is NaN.\<close>

fun js_max :: "jsnum \<Rightarrow> jsnum \<Rightarrow> jsnum" where
  "js_max NaN _ = NaN"
| "js_max _ NaN = NaN"
| "js_max a b = (if js_gt b a then b else a)"

text \<open>A number is falsy when it is zero or NaN.\<close>

fun js_truthy :: "jsnum \<Rightarrow> bool" where
  "js_truthy (Num a) = (a \<noteq> 0)"
| "js_truthy NaN = False"
| "js_truthy _ = True"

text \<open>Template literals print a non-negative integer in decimal.\<close>

definition digit_char :: "nat \<Rightarrow> char" where
  "digit_char d = ''0123456789'' ! d"

fun show_nat :: "nat \<Rightarrow> string" where
  "show_nat n = (if n < 10 then [digit_char n] else show_nat (n div 10) @ [digit_char (n mod 10)])"

declare show_nat.simps [simp del]

section \<open>Data model of the structural detector\<close>

text \<open>One entry of \<open>structure.headings\<close>, as \<open>extractStructure\<close> builds it.\<close>

record heading =
  h_level :: nat
  h_text :: string
  h_selector :: string
  h_index :: nat
  h_attr_id :: "string option"
  h_attr_class :: "string option"

datatype impact = Critical | Warning | Improvement | Neutral

record hierarchy_change =
  hc_index :: nat
  hc_from :: string
  hc_to :: string
  hc_text :: string
  hc_selector :: string
  hc_impact :: impact

record heading_modification =
  hm_index :: nat
  hm_level :: nat
  hm_from :: string
  hm_to :: string
  hm_selector :: string

record heading_changes =
  hd_hasChanges :: bool
  hd_added :: "heading list"
  hd_removed :: "heading list"
  hd_modified :: "heading_modification list"
  hierarchyChanges :: "hierarchy_change list"

text \<open>
  One entry of \<open>structure.metaTags\<close>. The object has the properties \<open>name\<close>,
  \<open>content\<close> and \<open>attributes\<close>; it has no property \<open>property\<close> of its own, so
  \<open>m.property\<close> is always undefined in \<open>compareMetaTags\<close>.
\<close>

record meta_tag =
  mt_name :: "string option"
  mt_content :: "string option"
  mt_attr_name :: "string option"
  mt_attr_property :: "string option"
  mt_attr_content :: "string option"

record meta_modification =
  mm_name :: string
  mm_from :: "string option"
  mm_to :: "string option"

record meta_changes =
  mc_hasChanges :: bool
  mc_added :: "meta_tag list"
  mc_removed :: "meta_tag list"
  mc_modified :: "meta_modification list"

record important_element =
  ie_tagName :: string
  ie_textContent :: string
  ie_selector :: string
  ie_attr_id :: "string option"
  ie_attr_class :: "string option"

record element_change =
  ec_type :: string
  ec_baseline :: nat
  ec_current :: nat

record element_changes =
  el_hasChanges :: bool
  selectorChanges :: "(string \<times> element_change) list"

text \<open>
  A JavaScript object used as a dictionary is an association list: its keys in insertion
  order, which is the order of \<open>for ... in\<close>. \<open>fullStructure\<close>, which no comparison
  reads, is left out of the snapshot.
\<close>

record page_structure =
  ps_title :: string
  ps_headings :: "heading list"
  ps_importantElements :: "(string \<times> important_element list) list"
  ps_metaTags :: "meta_tag list"

record structure_comparison =
  sc_hasChanges :: bool
  titleChanged :: bool
  headingChanges :: heading_changes
  metaTagChanges :: meta_changes
  elementChanges :: element_changes

text \<open>A changed style property: the baseline value and the current one, if there is one.\<close>

record style_change =
  st_from :: string
  st_to :: "string option"

record suspicious_change =
  su_selector :: string
  su_reason :: string
  su_changes :: "(string \<times> style_change) list"

record styling_comparison =
  hasCompensation :: bool
  styleChanges :: "(string \<times> (string \<times> style_change) list) list"
  suspiciousChanges :: "suspicious_change list"

section \<open>Issues\<close>

text \<open>
  The \<open>details\<close> object of an issue, one constructor per shape the core builds;
  \<open>ExternalDetails\<close> stands for the details of an issue of a rule auditor.
\<close>

datatype details =
    TitleDetails
  | HierarchyDetails hierarchy_change
  | MetaRemovedDetails meta_tag
  | MetaModifiedDetails meta_modification
  | ManipulationDetails hierarchy_change suspicious_change
  | SuspiciousDetails suspicious_change
  | DimensionDetails string string "(nat \<times> nat) option" "(nat \<times> nat) option"
  | VisualDetails string string "jsnum option" "string option"
  | MinorVisualDetails string string "jsnum option"
  | FailureDetails string string string string nat
  | ExternalDetails string

text \<open>
  What \<open>BaseAuditor.createIssue\<close> returns, without the message text and the timestamp.
  \<open>i_auditor\<close> is set on the synthetic issue of a failed auditor only.
\<close>

record issue =
  i_type :: string
  i_severity :: string
  i_auditor :: "string option"
  i_details :: details

record recommendation =
  r_type :: string
  r_details :: details

definition createIssue :: "string \<Rightarrow> string \<Rightarrow> details \<Rightarrow> issue" where
  "createIssue ty sev d = \<lparr>i_type = ty, i_severity = sev, i_auditor = None, i_details = d\<rparr>"

definition createWarning :: "string \<Rightarrow> details \<Rightarrow> issue" where
  "createWarning ty d = createIssue ty ''warning'' d"

definition createError :: "string \<Rightarrow> details \<Rightarrow> issue" where
  "createError ty d = createIssue ty ''error'' d"

definition createRecommendation :: "string \<Rightarrow> details \<Rightarrow> recommendation" where
  "createRecommendation ty d = \<lparr>r_type = ty, r_details = d\<rparr>"

section \<open>AuditResult\<close>

text \<open>
  The model of \<open>AuditResult\<close> leaves the timestamp out: it is the time of the clock.
\<close>

text \<open>
  What an auditor's \<open>audit\<close> returns: its three lists (each may be absent) and the rest
  of the object (score and domain fields), which the engine passes on unread.
\<close>

record plugin_result =
  pr_issues :: "issue list option"
  pr_warnings :: "issue list option"
  pr_recommendations :: "recommendation list option"
  pr_payload :: string

text \<open>The value under an auditor's name key: \<open>null\<close>, the empty array, or a result.\<close>

datatype finding = Null | EmptyArray | Found plugin_result

text \<open>
  The argument of the constructor of \<open>AuditResult\<close>; \<open>None\<close> is an absent property.
\<close>

record audit_data =
  d_url :: "string option"
  d_success :: "bool option"
  d_error :: "string option"
  d_loadTime :: "nat option"
  d_statusCode :: "nat option"
  d_crawlDepth :: "nat option"
  d_crawlSource :: "string option"
  d_findings :: "string \<Rightarrow> finding option"
  d_issues :: "issue list option"
  d_warnings :: "issue list option"
  d_recommendations :: "recommendation list option"

record audit_result =
  ar_url :: string
  ar_success :: bool
  ar_error :: "string option"
  ar_loadTime :: nat
  ar_statusCode :: nat
  ar_crawlDepth :: nat
  ar_crawlSource :: string
  ar_canonical :: finding
  ar_metaTags :: finding
  ar_headings :: finding
  ar_redirects :: finding
  ar_brokenLinks :: finding
  ar_structuredData :: finding
  ar_performance :: finding
  ar_accessibility :: finding
  ar_issues :: "issue list"
  ar_warnings :: "issue list"
  ar_recommendations :: "recommendation list"
  auditScore :: int

text \<open>\<open>x || null\<close> and \<open>x || []\<close> on a finding: only \<open>null\<close> and undefined are falsy.\<close>

fun or_null :: "finding option \<Rightarrow> finding" where
  "or_null None = Null"
| "or_null (Some f) = f"

fun or_empty :: "finding option \<Rightarrow> finding" where
  "or_empty None = EmptyArray"
| "or_empty (Some Null) = EmptyArray"
| "or_empty (Some f) = f"

definition calculateAuditScore :: "bool \<Rightarrow> issue list \<Rightarrow> issue list \<Rightarrow> int" where
  "calculateAuditScore success issues warnings =
     (if \<not> success then 0
      else let score = 100;
               criticalIssues = int (length (filter (\<lambda>i. i_severity i = ''error'') issues));
               warningCount = int (length warnings);
               score = score - criticalIssues * 15;
               score = score - warningCount * 5
           in max 0 (min 100 score))"

definition AuditResult :: "audit_data \<Rightarrow> audit_result" where
  "AuditResult d =
     (let success = (case d_success d of None \<Rightarrow> False | Some b \<Rightarrow> b);
          issues = (case d_issues d of None \<Rightarrow> [] | Some xs \<Rightarrow> xs);
          warnings = (case d_warnings d of None \<Rightarrow> [] | Some xs \<Rightarrow> xs)
      in \<lparr>ar_url = (case d_url d of None \<Rightarrow> [] | Some u \<Rightarrow> u),
          ar_success = success,
          ar_error = (case d_error d of None \<Rightarrow> None | Some e \<Rightarrow> if e = [] then None else Some e),
          ar_loadTime = (case d_loadTime d of None \<Rightarrow> 0 | Some n \<Rightarrow> n),
          ar_statusCode = (case d_statusCode d of None \<Rightarrow> 0 | Some n \<Rightarrow> n),
          ar_crawlDepth = (case d_crawlDepth d of None \<Rightarrow> 0 | Some n \<Rightarrow> n),
          ar_crawlSource =
            (case d_crawlSource d of None \<Rightarrow> ''unknown'' | Some s \<Rightarrow> if s = [] then ''unknown'' else s),
          ar_canonical = or_null (d_findings d ''canonical''),
          ar_metaTags = or_null (d_findings d ''metaTags''),
          ar_headings = or_null (d_findings d ''headings''),
          ar_redirects = or_empty (d_findings d ''redirects''),
          ar_brokenLinks = or_empty (d_findings d ''brokenLinks''),
          ar_structuredData = or_empty (d_findings d ''structuredData''),
          ar_performance = or_null (d_findings d ''performance''),
          ar_accessibility = or_null (d_findings d ''accessibility''),
          ar_issues = issues,
          ar_warnings = warnings,
          ar_recommendations = (case d_recommendations d of None \<Rightarrow> [] | Some xs \<Rightarrow> xs),
          auditScore = calculateAuditScore success issues warnings\<rparr>)"

section \<open>Structural manipulation detector\<close>

subsection \<open>Heading diff\<close>

definition assessHierarchyImpact :: "nat \<Rightarrow> nat \<Rightarrow> impact" where
  "assessHierarchyImpact fromLevel toLevel =
     (if fromLevel = 1 \<and> toLevel > 1 then Critical
      else if fromLevel < toLevel then Warning
      else if fromLevel > toLevel then Improvement
      else Neutral)"

text \<open>\<open>xs[i]\<close>: undefined past the end of the array.\<close>

definition js_index :: "'a list \<Rightarrow> nat \<Rightarrow> 'a option" where
  "js_index xs i = (if i < length xs then Some (xs ! i) else None)"

text \<open>\<open>xs.forEach((x, index) => ...)\<close> over a mutable accumulator.\<close>

fun forEach_index :: "(nat \<Rightarrow> 'a \<Rightarrow> 's \<Rightarrow> 's) \<Rightarrow> 'a list \<Rightarrow> nat \<Rightarrow> 's \<Rightarrow> 's" where
  "forEach_index f [] i s = s"
| "forEach_index f (x # xs) i s = forEach_index f xs (Suc i) (f i x s)"

definition hierarchy_entry :: "nat \<Rightarrow> heading \<Rightarrow> heading \<Rightarrow> hierarchy_change" where
  "hierarchy_entry index baselineHeading currentHeading =
     \<lparr>hc_index = index,
      hc_from = ''H'' @ show_nat (h_level baselineHeading),
      hc_to = ''H'' @ show_nat (h_level currentHeading),
      hc_text = h_text currentHeading,
      hc_selector = h_selector currentHeading,
      hc_impact = assessHierarchyImpact (h_level baselineHeading) (h_level currentHeading)\<rparr>"

definition modified_entry :: "nat \<Rightarrow> heading \<Rightarrow> heading \<Rightarrow> heading_modification" where
  "modified_entry index baselineHeading currentHeading =
     \<lparr>hm_index = index,
      hm_level = h_level currentHeading,
      hm_from = h_text baselineHeading,
      hm_to = h_text currentHeading,
      hm_selector = h_selector currentHeading\<rparr>"

text \<open>The body of the \<open>forEach\<close> of \<open>compareHeadings\<close>.\<close>

definition heading_step :: "heading list \<Rightarrow> nat \<Rightarrow> heading \<Rightarrow> heading_changes \<Rightarrow> heading_changes" where
  "heading_step currentHeadings index baselineHeading changes =
     (case js_index currentHeadings index of
        None \<Rightarrow>
          changes\<lparr>hd_removed := hd_removed changes @ [baselineHeading], hd_hasChanges := True\<rparr>
      | Some currentHeading \<Rightarrow>
          if h_level baselineHeading \<noteq> h_level currentHeading then
            changes\<lparr>hierarchyChanges :=
                       hierarchyChanges changes @ [hierarchy_entry index baselineHeading currentHeading],
                     hd_hasChanges := True\<rparr>
          else if h_text baselineHeading \<noteq> h_text currentHeading then
            changes\<lparr>hd_modified :=
                       hd_modified changes @ [modified_entry index baselineHeading currentHeading],
                     hd_hasChanges := True\<rparr>
          else changes)"

definition no_heading_changes :: heading_changes where
  "no_heading_changes =
     \<lparr>hd_hasChanges = False, hd_added = [], hd_removed = [], hd_modified = [], hierarchyChanges = []\<rparr>"

definition compareHeadings :: "heading list \<Rightarrow> heading list \<Rightarrow> heading_changes" where
  "compareHeadings baselineHeadings currentHeadings =
     (let changes = forEach_index (heading_step currentHeadings) baselineHeadings 0 no_heading_changes
      in if length currentHeadings > length baselineHeadings
         then changes\<lparr>hd_added := hd_added changes @ drop (length baselineHeadings) currentHeadings,
                      hd_hasChanges := True\<rparr>
         else changes)"

text \<open>A heading without id and class attributes, for concrete runs.\<close>

definition mk_heading :: "nat \<Rightarrow> string \<Rightarrow> string \<Rightarrow> nat \<Rightarrow> heading" where
  "mk_heading lvl txt sel idx =
     \<lparr>h_level = lvl, h_text = txt, h_selector = sel, h_index = idx, h_attr_id = None, h_attr_class = None\<rparr>"

subsection \<open>Meta tag diff\<close>

text \<open>
  \<open>new Map(entries)\<close>: a later entry with a key already present replaces the value and keeps
  the key's place, which is what \<open>AList.update\<close> does.
\<close>

definition js_Map :: "('k \<times> 'v) list \<Rightarrow> ('k \<times> 'v) list" where
  "js_Map entries = fold (\<lambda>(k, v) m. AList.update k v m) entries []"

text \<open>\<open>m.name || m.property || "unnamed"\<close>, where \<open>m.property\<close> is undefined.\<close>

definition meta_key :: "meta_tag \<Rightarrow> string" where
  "meta_key m = (case mt_name m of None \<Rightarrow> ''unnamed'' | Some n \<Rightarrow> if n = [] then ''unnamed'' else n)"

definition no_meta_changes :: meta_changes where
  "no_meta_changes = \<lparr>mc_hasChanges = False, mc_added = [], mc_removed = [], mc_modified = []\<rparr>"

definition meta_baseline_step :: "(string \<times> meta_tag) list \<Rightarrow> string \<times> meta_tag \<Rightarrow> meta_changes \<Rightarrow> meta_changes" where
  "meta_baseline_step currentMap entry changes =
     (case entry of (key, baselineTag) \<Rightarrow>
        (case map_of currentMap key of
           None \<Rightarrow> changes\<lparr>mc_removed := mc_removed changes @ [baselineTag], mc_hasChanges := True\<rparr>
         | Some currentTag \<Rightarrow>
             if mt_content baselineTag \<noteq> mt_content currentTag then
               changes\<lparr>mc_modified := mc_modified changes @
                          [\<lparr>mm_name = key, mm_from = mt_content baselineTag, mm_to = mt_content currentTag\<rparr>],
                        mc_hasChanges := True\<rparr>
             else changes))"

definition meta_current_step :: "(string \<times> meta_tag) list \<Rightarrow> string \<times> meta_tag \<Rightarrow> meta_changes \<Rightarrow> meta_changes" where
  "meta_current_step baselineMap entry changes =
     (case entry of (key, currentTag) \<Rightarrow>
        if map_of baselineMap key = None then
          changes\<lparr>mc_added := mc_added changes @ [currentTag], mc_hasChanges := True\<rparr>
        else changes)"

definition compareMetaTags :: "meta_tag list \<Rightarrow> meta_tag list \<Rightarrow> meta_changes" where
  "compareMetaTags baselineMeta currentMeta =
     (let baselineMap = js_Map (map (\<lambda>m. (meta_key m, m)) baselineMeta);
          currentMap = js_Map (map (\<lambda>m. (meta_key m, m)) currentMeta);
          changes = fold (meta_baseline_step currentMap) baselineMap no_meta_changes
      in fold (meta_current_step baselineMap) currentMap changes)"

subsection \<open>Important-element diff\<close>

definition element_baseline_step ::
  "(string \<times> important_element list) list \<Rightarrow> string \<times> important_element list \<Rightarrow>
     element_changes \<Rightarrow> element_changes" where
  "element_baseline_step currentElements entry changes =
     (case entry of (selector, baseline) \<Rightarrow>
        (case map_of currentElements selector of
           None \<Rightarrow>
             \<lparr>el_hasChanges = True,
              selectorChanges = AList.update selector
                \<lparr>ec_type = ''removed'', ec_baseline = length baseline, ec_current = 0\<rparr>
                (selectorChanges changes)\<rparr>
         | Some current \<Rightarrow>
             if length baseline \<noteq> length current then
               \<lparr>el_hasChanges = True,
                selectorChanges = AList.update selector
                  \<lparr>ec_type = ''count_changed'', ec_baseline = length baseline, ec_current = length current\<rparr>
                  (selectorChanges changes)\<rparr>
             else changes))"

definition element_current_step ::
  "(string \<times> important_element list) list \<Rightarrow> string \<times> important_element list \<Rightarrow>
     element_changes \<Rightarrow> element_changes" where
  "element_current_step baselineElements entry changes =
     (case entry of (selector, current) \<Rightarrow>
        if map_of baselineElements selector = None then
          \<lparr>el_hasChanges = True,
           selectorChanges = AList.update selector
             \<lparr>ec_type = ''added'', ec_baseline = 0, ec_current = length current\<rparr>
             (selectorChanges changes)\<rparr>
        else changes)"

definition compareImportantElements ::
  "(string \<times> important_element list) list \<Rightarrow> (string \<times> important_element list) list \<Rightarrow> element_changes" where
  "compareImportantElements baselineElements currentElements =
     (let changes = \<lparr>el_hasChanges = False, selectorChanges = []\<rparr>;
          changes = fold (element_baseline_step currentElements) baselineElements changes
      in fold (element_current_step baselineElements) currentElements changes)"

definition compareStructures :: "page_structure \<Rightarrow> page_structure \<Rightarrow> structure_comparison" where
  "compareStructures baseline current =
     (let tc = (ps_title baseline \<noteq> ps_title current);
          hc = compareHeadings (ps_headings baseline) (ps_headings current);
          mc = compareMetaTags (ps_metaTags baseline) (ps_metaTags current);
          ec = compareImportantElements (ps_importantElements baseline) (ps_importantElements current)
      in \<lparr>sc_hasChanges = (tc \<or> hd_hasChanges hc \<or> mc_hasChanges mc \<or> el_hasChanges ec),
          titleChanged = tc,
          headingChanges = hc,
          metaTagChanges = mc,
          elementChanges = ec\<rparr>)"

subsection \<open>Style diff\<close>

text \<open>
  The computed styles of one snapshot: selector to property to value. \<open>parseFloat\<close> is a
  builtin of the platform; the functions that call it take it as the parameter \<open>pf\<close>.
  An undefined argument is first converted to the string "undefined".
\<close>

type_synonym styling = "(string \<times> (string \<times> string) list) list"

definition js_to_string :: "string option \<Rightarrow> string" where
  "js_to_string v = (case v of None \<Rightarrow> ''undefined'' | Some s \<Rightarrow> s)"

definition isSignificantFontSizeIncrease :: "(string \<Rightarrow> jsnum) \<Rightarrow> string \<Rightarrow> string option \<Rightarrow> bool" where
  "isSignificantFontSizeIncrease pf from to =
     (let fromPx = pf from; toPx = pf (js_to_string to)
      in js_gt toPx (js_mul fromPx (Num (12 / 10))))"

text \<open>
  The table \<open>{ normal: 400, bold: 700 }\<close>. Keys that an object literal inherits from its
  prototype (for instance "constructor") are no values of a computed font weight and are
  not modelled.
\<close>

definition weights :: "string \<Rightarrow> real option" where
  "weights k = (if k = ''normal'' then Some 400 else if k = ''bold'' then Some 700 else None)"

text \<open>\<open>weights[v] || parseFloat(v) || 400\<close>\<close>

definition weight_of :: "(string \<Rightarrow> jsnum) \<Rightarrow> string \<Rightarrow> jsnum" where
  "weight_of pf v =
     (case weights v of
        Some w \<Rightarrow> Num w
      | None \<Rightarrow> (let p = pf v in if js_truthy p then p else Num 400))"

definition isWeightIncrease :: "(string \<Rightarrow> jsnum) \<Rightarrow> string \<Rightarrow> string option \<Rightarrow> bool" where
  "isWeightIncrease pf from to =
     (let fromWeight = weight_of pf from; toWeight = weight_of pf (js_to_string to)
      in js_gt toWeight fromWeight)"

text \<open>The regular expression \<open>/^h[2-6]/\<close>.\<close>

definition matches_h2_h6 :: "string \<Rightarrow> bool" where
  "matches_h2_h6 selector =
     (case selector of
        c1 # c2 # _ \<Rightarrow> c1 = CHR ''h'' \<and> c2 \<in> set ''23456''
      | _ \<Rightarrow> False)"

definition isSuspiciousStyling :: "(string \<Rightarrow> jsnum) \<Rightarrow> string \<Rightarrow> (string \<times> style_change) list \<Rightarrow> bool" where
  "isSuspiciousStyling pf selector changes =
     (if matches_h2_h6 selector then
        (let fontSize = map_of changes ''fontSize'';
             fontWeight = map_of changes ''fontWeight''
         in if (case fontSize of None \<Rightarrow> False
                | Some c \<Rightarrow> isSignificantFontSizeIncrease pf (st_from c) (st_to c)) then True
            else if (case fontWeight of None \<Rightarrow> False
                     | Some c \<Rightarrow> isWeightIncrease pf (st_from c) (st_to c)) then True
            else False)
      else False)"

text \<open>The inner loop of \<open>compareStyling\<close>: the changed properties of one selector.\<close>

definition property_step ::
  "(string \<times> string) list \<Rightarrow> string \<times> string \<Rightarrow> (string \<times> style_change) list \<times> bool \<Rightarrow>
     (string \<times> style_change) list \<times> bool" where
  "property_step current entry acc =
     (case entry of (property, baselineValue) \<Rightarrow>
        (case acc of (propertyChanges, hasChanges) \<Rightarrow>
           if Some baselineValue \<noteq> map_of current property then
             (AList.update property \<lparr>st_from = baselineValue, st_to = map_of current property\<rparr> propertyChanges,
              True)
           else (propertyChanges, hasChanges)))"

definition styling_step ::
  "(string \<Rightarrow> jsnum) \<Rightarrow> styling \<Rightarrow> string \<times> (string \<times> string) list \<Rightarrow>
     styling_comparison \<Rightarrow> styling_comparison" where
  "styling_step pf currentStyling entry changes =
     (case entry of (selector, baseline) \<Rightarrow>
        (case map_of currentStyling selector of
           None \<Rightarrow> changes
         | Some current \<Rightarrow>
             (case fold (property_step current) baseline ([], False) of
                (propertyChanges, hasChanges) \<Rightarrow>
                  if hasChanges then
                    (let changes = changes\<lparr>styleChanges :=
                                      AList.update selector propertyChanges (styleChanges changes)\<rparr>
                     in if isSuspiciousStyling pf selector propertyChanges then
                          changes\<lparr>suspiciousChanges := suspiciousChanges changes @
                                     [\<lparr>su_selector = selector, su_reason = ''heading_impersonation'',
                                       su_changes = propertyChanges\<rparr>],
                                   hasCompensation := True\<rparr>
                        else changes)
                  else changes)))"

definition compareStyling :: "(string \<Rightarrow> jsnum) \<Rightarrow> styling \<Rightarrow> styling \<Rightarrow> styling_comparison" where
  "compareStyling pf baselineStyling currentStyling =
     fold (styling_step pf currentStyling) baselineStyling
       \<lparr>hasCompensation = False, styleChanges = [], suspiciousChanges = []\<rparr>"

subsection \<open>Issues of the structural detector\<close>





text \<open>\<open>haystack.includes(needle)\<close>: the needle occurs as a contiguous part.\<close>

fun js_includes :: "string \<Rightarrow> string \<Rightarrow> bool" where
  "js_includes [] needle = (needle = [])"
| "js_includes (c # cs) needle = (prefix needle (c # cs) \<or> js_includes cs needle)"



subsection \<open>Score\<close>

text \<open>The score stays an integer, which \<open>Math.round\<close> leaves as it is.\<close>

definition calculateStructureScore :: "structure_comparison \<Rightarrow> styling_comparison option \<Rightarrow> int" where
  "calculateStructureScore structureComparison stylingComparison =
     (let score = 100;
          score =
            (if sc_hasChanges structureComparison then
               (let criticalHeadingChanges =
                      int (length (filter (\<lambda>c. hc_impact c = Critical)
                                     (hierarchyChanges (headingChanges structureComparison))));
                    score = score - criticalHeadingChanges * 30;
                    warningHeadingChanges =
                      int (length (filter (\<lambda>c. hc_impact c = Warning)
                                     (hierarchyChanges (headingChanges structureComparison))));
                    score = score - warningHeadingChanges * 15;
                    score = score - int (length (hd_removed (headingChanges structureComparison))) * 10;
                    score = score - int (length (mc_removed (metaTagChanges structureComparison))) * 20;
                    score = score - int (length (mc_modified (metaTagChanges structureComparison))) * 5
                in score)
             else score);
          score =
            (case stylingComparison of
               None \<Rightarrow> score
             | Some sc \<Rightarrow>
                 if hasCompensation sc then score - int (length (suspiciousChanges sc)) * 25
                 else score)
      in max 0 score)"

subsection \<open>The audit\<close>




subsection \<open>A decimal \<open>parseFloat\<close> for concrete runs\<close>

text \<open>
  The theorems hold for every \<open>parseFloat\<close>. Concrete runs use this one: leading blanks,
  a sign, decimal digits and a fraction, read as the builtin reads them; exponents and the
  word "Infinity" are not read.
\<close>

definition digit_of :: "char \<Rightarrow> nat option" where
  "digit_of c = (let n = (of_char c :: nat) in if 48 \<le> n \<and> n \<le> 57 then Some (n - 48) else None)"

fun take_digits :: "string \<Rightarrow> nat list \<times> string" where
  "take_digits [] = ([], [])"
| "take_digits (c # cs) =
     (case digit_of c of
        None \<Rightarrow> ([], c # cs)
      | Some d \<Rightarrow> (case take_digits cs of (ds, rest) \<Rightarrow> (d # ds, rest)))"

definition digits_value :: "nat list \<Rightarrow> real" where
  "digits_value ds = real (fold (\<lambda>d acc. 10 * acc + d) ds 0)"

definition parseFloat :: "string \<Rightarrow> jsnum" where
  "parseFloat s =
     (let s = dropWhile (\<lambda>c. c = CHR '' '') s;
          neg = (case s of c # _ \<Rightarrow> c = CHR ''-'' | [] \<Rightarrow> False);
          s = (case s of c # cs \<Rightarrow> if c = CHR ''-'' \<or> c = CHR ''+'' then cs else s | [] \<Rightarrow> s)
      in case take_digits s of (ip, rest) \<Rightarrow>
           (let fp = (case rest of c # cs \<Rightarrow> if c = CHR ''.'' then fst (take_digits cs) else [] | [] \<Rightarrow> [])
            in if ip = [] \<and> fp = [] then NaN
               else (let v = digits_value ip + digits_value fp / 10 ^ length fp
                     in Num (if neg then - v else v))))"

subsection \<open>A concrete pair of snapshots\<close>


definition example_current :: page_structure where
  "example_current =
     \<lparr>ps_title = ''Shop'',
      ps_headings = [mk_heading 3 ''Intro'' ''main > h3'' 0, mk_heading 3 ''Offers'' ''section > h3'' 1],
      ps_importantElements = [],
      ps_metaTags = []\<rparr>"

definition example_current_styling :: styling where
  "example_current_styling =
     [(''h3'', [(''fontSize'', ''32px''), (''fontWeight'', ''400'')]),
      (''h3:nth-of-type(2)'', [(''fontSize'', ''32px''), (''fontWeight'', ''700'')])]"

subsection \<open>The score as the specification words it\<close>

text \<open>
  The specification subtracts 25 for each correlated manipulation: a suspicious style change
  matched to a structural change. These two definitions follow its words, to be compared
  with \<open>calculateStructureScore\<close>.
\<close>

definition spec_correlated_manipulations ::
  "structure_comparison \<Rightarrow> styling_comparison option \<Rightarrow> suspicious_change list" where
  "spec_correlated_manipulations sc st =
     (case st of
        None \<Rightarrow> []
      | Some s \<Rightarrow>
          filter (\<lambda>su. find (\<lambda>hc. js_includes (hc_selector hc) (su_selector su))
                          (hierarchyChanges (headingChanges sc)) \<noteq> None)
            (suspiciousChanges s))"

definition spec_structure_score :: "structure_comparison \<Rightarrow> styling_comparison option \<Rightarrow> int" where
  "spec_structure_score sc st =
     max 0 (100
       - int (length (filter (\<lambda>c. hc_impact c = Critical) (hierarchyChanges (headingChanges sc)))) * 30
       - int (length (filter (\<lambda>c. hc_impact c = Warning) (hierarchyChanges (headingChanges sc)))) * 15
       - int (length (hd_removed (headingChanges sc))) * 10
       - int (length (mc_removed (metaTagChanges sc))) * 20
       - int (length (mc_modified (metaTagChanges sc))) * 5
       - int (length (spec_correlated_manipulations sc st)) * 25)"

subsection \<open>Invariants of the diff accumulators\<close>

text \<open>Whenever a loop records a change it raises the flag \<open>hasChanges\<close>.\<close>

definition heading_inv :: "heading_changes \<Rightarrow> bool" where
  "heading_inv ch = (hd_hasChanges ch \<or> (hierarchyChanges ch = [] \<and> hd_removed ch = []))"

definition meta_inv :: "meta_changes \<Rightarrow> bool" where
  "meta_inv ch = (mc_hasChanges ch \<or> (mc_removed ch = [] \<and> mc_modified ch = []))"

section \<open>Visual regression detector\<close>

text \<open>
  A decoded PNG. Reading and decoding a file (\<open>PNG.sync.read(fs.readFileSync(path))\<close>)
  either gives one or throws; a thrown error is \<open>Inl\<close> of its message.
\<close>

record png =
  png_width :: nat
  png_height :: nat
  png_data :: "nat list"

record comparison =
  cmp_hasChanges :: bool
  cmp_reason :: string
  cmp_error :: "string option"
  cmp_baselineDimensions :: "(nat \<times> nat) option"
  cmp_currentDimensions :: "(nat \<times> nat) option"
  cmp_diffPixels :: "jsnum option"
  cmp_diffPercentage :: "jsnum option"
  cmp_diffPath :: "string option"
  cmp_element :: string
  cmp_viewport :: string
  cmp_url :: string

text \<open>
  \<open>compareScreenshots\<close>. The library function \<open>pixelmatch\<close> is the parameter \<open>pm\<close>: from
  the two pixel arrays, the width and the height (the options are the constants of the call)
  it gives the number of differing pixels, or throws. \<open>writeError\<close> is the error thrown by
  writing the diff image, if any; \<open>threshold\<close> is \<open>config.threshold\<close>. The properties
  \<open>element\<close>, \<open>viewport\<close> and \<open>url\<close>, which the caller adds, are left empty here.
\<close>

definition comparison_error :: "string \<Rightarrow> comparison" where
  "comparison_error msg =
     \<lparr>cmp_hasChanges = True, cmp_reason = ''comparison_error'', cmp_error = Some msg,
      cmp_baselineDimensions = None, cmp_currentDimensions = None,
      cmp_diffPixels = None, cmp_diffPercentage = None, cmp_diffPath = None,
      cmp_element = [], cmp_viewport = [], cmp_url = []\<rparr>"

definition compareScreenshots ::
  "(nat list \<Rightarrow> nat list \<Rightarrow> nat \<Rightarrow> nat \<Rightarrow> string + nat) \<Rightarrow> string option \<Rightarrow> real \<Rightarrow>
     string + png \<Rightarrow> string + png \<Rightarrow> string \<Rightarrow> comparison" where
  "compareScreenshots pm writeError threshold baselineFile currentFile diffPath =
     (case baselineFile of
        Inl msg \<Rightarrow> comparison_error msg
      | Inr baseline \<Rightarrow>
          (case currentFile of
             Inl msg \<Rightarrow> comparison_error msg
           | Inr current \<Rightarrow>
               (let width = png_width baseline; height = png_height baseline
                in if png_width current \<noteq> width \<or> png_height current \<noteq> height then
                     \<lparr>cmp_hasChanges = True, cmp_reason = ''dimension_change'', cmp_error = None,
                      cmp_baselineDimensions = Some (width, height),
                      cmp_currentDimensions = Some (png_width current, png_height current),
                      cmp_diffPixels = Some (Num (real (width * height))),
                      cmp_diffPercentage = Some (Num 100),
                      cmp_diffPath = None,
                      cmp_element = [], cmp_viewport = [], cmp_url = []\<rparr>
                   else
                     (case pm (png_data baseline) (png_data current) width height of
                        Inl msg \<Rightarrow> comparison_error msg
                      | Inr diffPixels \<Rightarrow>
                          (let diffPercentage =
                                 js_mul (js_div (Num (real diffPixels)) (Num (real (width * height))))
                                   (Num 100);
                               hasChanges = js_gt diffPercentage (Num threshold)
                           in case (if hasChanges then writeError else None) of
                                Some msg \<Rightarrow> comparison_error msg
                              | None \<Rightarrow>
                                  \<lparr>cmp_hasChanges = hasChanges,
                                   cmp_reason = (if hasChanges then ''visual_difference'' else ''no_change''),
                                   cmp_error = None,
                                   cmp_baselineDimensions = Some (width, height),
                                   cmp_currentDimensions = Some (png_width current, png_height current),
                                   cmp_diffPixels = Some (Num (real diffPixels)),
                                   cmp_diffPercentage = Some diffPercentage,
                                   cmp_diffPath = (if hasChanges then Some diffPath else None),
                                   cmp_element = [], cmp_viewport = [], cmp_url = []\<rparr>)))))"


text \<open>The three lists an audit collects: issues, warnings, recommendations.\<close>

type_synonym findings = "issue list \<times> issue list \<times> recommendation list"

definition processComparison :: "comparison \<Rightarrow> findings \<Rightarrow> findings" where
  "processComparison c acc =
     (case acc of (issues, warnings, recommendations) \<Rightarrow>
        if \<not> cmp_hasChanges c then (issues, warnings, recommendations)
        else if cmp_reason c = ''dimension_change'' then
          (issues @ [createError ''layout_dimension_change''
                       (DimensionDetails (cmp_element c) (cmp_viewport c)
                          (cmp_baselineDimensions c) (cmp_currentDimensions c))],
           warnings, recommendations)
        else if js_gt (to_number (cmp_diffPercentage c)) (Num 50) then
          (issues @ [createError ''major_visual_change''
                       (VisualDetails (cmp_element c) (cmp_viewport c)
                          (cmp_diffPercentage c) (cmp_diffPath c))],
           warnings, recommendations)
        else if js_gt (to_number (cmp_diffPercentage c)) (Num 20) then
          (issues,
           warnings @ [createWarning ''moderate_visual_change''
                         (VisualDetails (cmp_element c) (cmp_viewport c)
                            (cmp_diffPercentage c) (cmp_diffPath c))],
           recommendations)
        else
          (issues, warnings,
           recommendations @ [createRecommendation ''minor_visual_change''
                                (MinorVisualDetails (cmp_element c) (cmp_viewport c)
                                   (cmp_diffPercentage c))]))"

definition calculateVisualScore :: "comparison list \<Rightarrow> jsnum" where
  "calculateVisualScore comparisons =
     (if length comparisons = 0 then Num 100
      else let changedComparisons = filter cmp_hasChanges comparisons
           in if length changedComparisons = 0 then Num 100
              else let avgDiffPercentage =
                         js_div (fold (\<lambda>c sum. js_add sum (to_number (cmp_diffPercentage c)))
                                   changedComparisons (Num 0))
                           (Num (real (length changedComparisons)));
                       changeRatio = js_div (Num (real (length changedComparisons)))
                                       (Num (real (length comparisons)));
                       score = Num 100;
                       score = js_sub score (js_mul avgDiffPercentage (Num 2));
                       score = js_sub score (js_mul changeRatio (Num 30))
                   in js_max (Num 0) (js_round score))"

record visual_audit =
  va_comparisons :: "comparison list"
  va_visualChanges :: "comparison list"
  va_issues :: "issue list"
  va_warnings :: "issue list"
  va_recommendations :: "recommendation list"
  va_score :: jsnum

text \<open>
  What \<open>VisualRegressionAuditor.audit\<close> returns for the comparisons of its captures, in
  capture order: each is processed as soon as it is made.
\<close>

definition visual_audit :: "comparison list \<Rightarrow> visual_audit" where
  "visual_audit comparisons =
     (case fold processComparison comparisons ([], [], []) of
        (issues, warnings, recommendations) \<Rightarrow>
          \<lparr>va_comparisons = comparisons,
           va_visualChanges = filter cmp_hasChanges comparisons,
           va_issues = issues,
           va_warnings = warnings,
           va_recommendations = recommendations,
           va_score = calculateVisualScore comparisons\<rparr>)"

subsection \<open>The severity as the specification words it\<close>


subsection \<open>An exact \<open>pixelmatch\<close> for concrete runs\<close>

text \<open>
  The theorems hold for every \<open>pixelmatch\<close>. Concrete runs use this one, which counts the
  RGBA pixels whose four bytes differ, without the colour-distance threshold and the
  anti-aliasing tolerance of the library, and throws as the library does when the sizes
  do not fit.
\<close>

fun pixels_differing :: "nat list \<Rightarrow> nat list \<Rightarrow> nat" where
  "pixels_differing (r1 # g1 # b1 # a1 # xs) (r2 # g2 # b2 # a2 # ys) =
     (if r1 = r2 \<and> g1 = g2 \<and> b1 = b2 \<and> a1 = a2 then 0 else 1) + pixels_differing xs ys"
| "pixels_differing _ _ = 0"

definition exact_pixelmatch :: "nat list \<Rightarrow> nat list \<Rightarrow> nat \<Rightarrow> nat \<Rightarrow> string + nat" where
  "exact_pixelmatch img1 img2 width height =
     (if length img1 \<noteq> length img2 then Inl ''Image sizes do not match.''
      else if length img1 \<noteq> width * height * 4 then Inl ''Image data size does not match width/height.''
      else Inr (pixels_differing img1 img2))"

text \<open>A white image of one pixel by two pixels, and the same with its second pixel black.\<close>

definition white_1x2 :: png where
  "white_1x2 = \<lparr>png_width = 1, png_height = 2, png_data = [255, 255, 255, 255, 255, 255, 255, 255]\<rparr>"



section \<open>Audit dispatch engine\<close>

text \<open>
  The configuration of \<open>AuditEngine\<close>, as far as the modelled code reads it, together
  with the two flags \<open>includeVisualRegression\<close> and \<open>includeStructureComparison\<close> that
  \<open>LandingPageAuditor\<close> passes in; and the options of \<open>auditUrls\<close>.
\<close>

record engine_config =
  cfg_timeout :: nat
  cfg_retries :: nat
  cfg_includePerformance :: bool
  cfg_includeAccessibility :: bool
  cfg_includeVisualRegression :: bool
  cfg_includeStructureComparison :: bool
  cfg_rateLimitDelay :: real
  cfg_maxRetryDelay :: real

record audit_options =
  opt_includePerformance :: bool
  opt_includeAccessibility :: bool
  opt_includeSecurity :: bool
  opt_includeVisualRegression :: bool
  opt_includeStructureComparison :: bool

text \<open>The empty options object \<open>{}\<close>: every flag is undefined, hence falsy.\<close>

definition no_options :: audit_options where
  "no_options =
     \<lparr>opt_includePerformance = False, opt_includeAccessibility = False, opt_includeSecurity = False,
      opt_includeVisualRegression = False, opt_includeStructureComparison = False\<rparr>"

text \<open>
  The names under which \<open>initializeAuditors\<close> registers auditors, in the insertion order
  of the map. An auditor whose \<open>initialize\<close> fails stays registered.
\<close>

definition initializeAuditors :: "engine_config \<Rightarrow> string list" where
  "initializeAuditors cfg =
     [''canonical'', ''metaTags'', ''headings'', ''redirects'', ''brokenLinks'', ''structuredData'']
     @ (if cfg_includePerformance cfg then [''performance''] else [])
     @ (if cfg_includeAccessibility cfg then [''accessibility''] else [])"

definition shouldRunAuditor :: "engine_config \<Rightarrow> string \<Rightarrow> audit_options \<Rightarrow> bool" where
  "shouldRunAuditor cfg auditorName options =
     (let coreAuditors =
            [''canonical'', ''metaTags'', ''headings'', ''redirects'', ''brokenLinks'', ''structuredData'']
      in if auditorName \<in> set coreAuditors then True
         else if auditorName = ''performance'' \<and>
                 (opt_includePerformance options \<or> cfg_includePerformance cfg) then True
         else if auditorName = ''accessibility'' \<and>
                 (opt_includeAccessibility options \<or> cfg_includeAccessibility cfg) then True
         else False)"

text \<open>The auditors \<open>auditSingleUrl\<close> runs on a page: the registered ones that should run.\<close>

definition enabledAuditors :: "engine_config \<Rightarrow> audit_options \<Rightarrow> string list" where
  "enabledAuditors cfg options =
     filter (\<lambda>name. shouldRunAuditor cfg name options) (initializeAuditors cfg)"

text \<open>
  What an auditor does on a page within the race against the timer: it returns a result
  (possibly \<open>null\<close>), throws, or is still running when the timer fires.
\<close>

datatype plugin_outcome = Returns "plugin_result option" | Throws string | Sleeps

record run_result =
  rr_name :: string
  rr_success :: bool
  rr_result :: "plugin_result option"
  rr_error :: "string option"

definition runAuditorWithTimeout :: "engine_config \<Rightarrow> string \<Rightarrow> plugin_outcome \<Rightarrow> run_result" where
  "runAuditorWithTimeout cfg auditorName outcome =
     (case outcome of
        Returns result \<Rightarrow>
          \<lparr>rr_name = auditorName, rr_success = True, rr_result = result, rr_error = None\<rparr>
      | Throws msg \<Rightarrow>
          \<lparr>rr_name = auditorName, rr_success = False, rr_result = None, rr_error = Some msg\<rparr>
      | Sleeps \<Rightarrow>
          \<lparr>rr_name = auditorName, rr_success = False, rr_result = None,
           rr_error = Some (auditorName @ '' auditor timeout after '' @ show_nat (cfg_timeout cfg) @ ''ms'')\<rparr>)"

text \<open>An element of the array of \<open>Promise.allSettled\<close>.\<close>

datatype settled = Fulfilled run_result | Rejected string

record compiled =
  cp_findings :: "string \<Rightarrow> finding option"
  cp_issues :: "issue list"
  cp_warnings :: "issue list"
  cp_recommendations :: "recommendation list"

definition empty_compiled :: compiled where
  "empty_compiled =
     \<lparr>cp_findings =
        (\<lambda>k. None)(''canonical'' \<mapsto> Null, ''metaTags'' \<mapsto> Null, ''headings'' \<mapsto> Null,
                    ''redirects'' \<mapsto> EmptyArray, ''brokenLinks'' \<mapsto> EmptyArray,
                    ''structuredData'' \<mapsto> EmptyArray, ''performance'' \<mapsto> Null,
                    ''accessibility'' \<mapsto> Null),
      cp_issues = [], cp_warnings = [], cp_recommendations = []\<rparr>"

definition audit_failure :: "string \<Rightarrow> string \<Rightarrow> string \<Rightarrow> string \<Rightarrow> nat \<Rightarrow> issue" where
  "audit_failure auditorName url err resultStatus index =
     \<lparr>i_type = ''audit_failure'', i_severity = ''error'', i_auditor = Some auditorName,
      i_details = FailureDetails auditorName url err resultStatus index\<rparr>"

text \<open>
  The lists of a result: \<open>auditResult && auditResult.issues\<close> guards each push, so a
  \<open>null\<close> result or an absent list contributes nothing.
\<close>

definition result_issues :: "plugin_result option \<Rightarrow> issue list" where
  "result_issues auditResult =
     (case auditResult of None \<Rightarrow> []
      | Some r \<Rightarrow> (case pr_issues r of None \<Rightarrow> [] | Some xs \<Rightarrow> xs))"

definition result_warnings :: "plugin_result option \<Rightarrow> issue list" where
  "result_warnings auditResult =
     (case auditResult of None \<Rightarrow> []
      | Some r \<Rightarrow> (case pr_warnings r of None \<Rightarrow> [] | Some xs \<Rightarrow> xs))"

definition result_recommendations :: "plugin_result option \<Rightarrow> recommendation list" where
  "result_recommendations auditResult =
     (case auditResult of None \<Rightarrow> []
      | Some r \<Rightarrow> (case pr_recommendations r of None \<Rightarrow> [] | Some xs \<Rightarrow> xs))"

text \<open>The value stored under the name key: the result, or \<open>null\<close>.\<close>

definition result_finding :: "plugin_result option \<Rightarrow> finding" where
  "result_finding auditResult = (case auditResult of None \<Rightarrow> Null | Some r \<Rightarrow> Found r)"

text \<open>
  The body of the \<open>forEach\<close> of \<open>compileAuditResults\<close>. The names of the registry are none
  of "issues", "warnings" and "recommendations", so \<open>compiled[name] = auditResult\<close> never
  overwrites one of the three lists; the findings are kept apart from them.
\<close>

definition compile_step :: "string \<Rightarrow> nat \<Rightarrow> settled \<Rightarrow> compiled \<Rightarrow> compiled" where
  "compile_step url index result cp =
     (case result of
        Fulfilled v \<Rightarrow>
          if rr_success v then
            cp\<lparr>cp_findings := (cp_findings cp)(rr_name v \<mapsto> result_finding (rr_result v)),
               cp_issues := cp_issues cp @ result_issues (rr_result v),
               cp_warnings := cp_warnings cp @ result_warnings (rr_result v),
               cp_recommendations := cp_recommendations cp @ result_recommendations (rr_result v)\<rparr>
          else
            cp\<lparr>cp_issues := cp_issues cp @
                    [audit_failure (if rr_name v = [] then ''unknown'' else rr_name v) url
                       (js_to_string (rr_error v)) ''fulfilled'' index]\<rparr>
      | Rejected reason \<Rightarrow>
          cp\<lparr>cp_issues := cp_issues cp @ [audit_failure ''unknown'' url reason ''rejected'' index]\<rparr>)"

definition compileAuditResults :: "settled list \<Rightarrow> string \<Rightarrow> compiled" where
  "compileAuditResults auditResults url = forEach_index (compile_step url) auditResults 0 empty_compiled"

subsection \<open>Auditing one URL\<close>

record crawl_result =
  cr_url :: string
  cr_discovered :: bool
  cr_depth :: nat
  cr_source :: string

record goto_response =
  gr_status :: nat
  gr_statusText :: string

text \<open>One call of \<open>page.goto\<close>: it throws, or returns a response or \<open>null\<close>.\<close>

datatype goto_outcome = GotoThrows string | GotoReturns "goto_response option"

text \<open>
  The world around the audit of one URL: the outcome of the k-th call of \<open>page.goto\<close>, the value
  of the k-th call of \<open>Math.random\<close> (a number from 0 up to 1), what each auditor does on the
  loaded page, and the elapsed time measured as \<open>loadTime\<close>. Opening and closing the
  render context are taken to succeed; the settle delay, the waits for load states and the
  human simulation, which catch their own errors, are not modelled.
\<close>

record engine_env =
  env_goto :: "nat \<Rightarrow> goto_outcome"
  env_random :: "nat \<Rightarrow> real"
  env_plugin :: "string \<Rightarrow> plugin_outcome"
  env_loadTime :: nat

datatype event =
    Navigate string
  | PacingSleep real
  | CooldownSleep real
  | RetrySleep real
  | RateLimitSleep real

text \<open>
  The state of the engine that the audit of one URL reads and writes, with the calls made so far and
  the trace of navigations and sleeps.
\<close>

record engine_state =
  rateLimitRetries :: "string \<Rightarrow> nat option"
  requestCount :: nat
  gotoCalls :: nat
  randomCalls :: nat
  events :: "event list"

definition applyRateLimit :: "engine_env \<Rightarrow> engine_state \<Rightarrow> engine_state" where
  "applyRateLimit env st =
     (let baseDelay = env_random env (randomCalls st) * 2000 + 1000;
          st = st\<lparr>randomCalls := randomCalls st + 1, events := events st @ [PacingSleep baseDelay]\<rparr>
      in if requestCount st > 0 \<and> requestCount st mod 10 = 0 then
           (let cooldownDelay = 5000 + env_random env (randomCalls st) * 5000
            in st\<lparr>randomCalls := randomCalls st + 1, events := events st @ [CooldownSleep cooldownDelay]\<rparr>)
         else st)"

text \<open>
  The loop of \<open>navigateWithRetry\<close>, from the attempt \<open>attempt\<close> on. Falling out of the loop
  returns undefined, which the caller takes as no response.
\<close>

function navigate_from ::
  "engine_env \<Rightarrow> string \<Rightarrow> nat \<Rightarrow> nat \<Rightarrow> engine_state \<Rightarrow> (string + goto_response option) \<times> engine_state" where
  "navigate_from env url retries attempt st =
     (if attempt \<le> retries then
        (let outcome = env_goto env (gotoCalls st);
             st = st\<lparr>gotoCalls := gotoCalls st + 1, events := events st @ [Navigate url]\<rparr>
         in case outcome of
              GotoReturns response \<Rightarrow> (Inr response, st)
            | GotoThrows msg \<Rightarrow>
                if attempt = retries then (Inl msg, st)
                else
                  (let baseRetryDelay = 2000 * (real attempt + 1);
                       jitterDelay = baseRetryDelay + env_random env (randomCalls st) * 2000;
                       st = st\<lparr>randomCalls := randomCalls st + 1,
                                events := events st @ [RetrySleep jitterDelay]\<rparr>
                   in navigate_from env url retries (attempt + 1) st))
      else (Inr None, st))"
  by pat_completeness auto
termination
  by (relation "measure (\<lambda>(env, url, retries, attempt, st). Suc retries - attempt)") auto

declare navigate_from.simps [simp del]

definition navigateWithRetry ::
  "engine_env \<Rightarrow> engine_config \<Rightarrow> string \<Rightarrow> engine_state \<Rightarrow> (string + goto_response option) \<times> engine_state" where
  "navigateWithRetry env cfg url st = navigate_from env url (cfg_retries cfg) 0 st"

definition failed_audit :: "engine_env \<Rightarrow> crawl_result \<Rightarrow> string \<Rightarrow> audit_result" where
  "failed_audit env crawlResult msg =
     AuditResult
       \<lparr>d_url = Some (cr_url crawlResult), d_success = Some False, d_error = Some msg,
        d_loadTime = Some (env_loadTime env), d_statusCode = None, d_crawlDepth = None,
        d_crawlSource = None, d_findings = (\<lambda>k. None), d_issues = None, d_warnings = None,
        d_recommendations = None\<rparr>"

definition rate_limit_exceeded :: "crawl_result \<Rightarrow> audit_result" where
  "rate_limit_exceeded crawlResult =
     AuditResult
       \<lparr>d_url = Some (cr_url crawlResult), d_success = Some False,
        d_error = Some ''Rate limit exceeded - maximum retries reached'',
        d_loadTime = None, d_statusCode = Some 429, d_crawlDepth = None,
        d_crawlSource = None, d_findings = (\<lambda>k. None), d_issues = None, d_warnings = None,
        d_recommendations = None\<rparr>"

text \<open>The part of \<open>auditSingleUrl\<close> after a navigation that loaded the page.\<close>

definition run_auditors ::
  "engine_env \<Rightarrow> engine_config \<Rightarrow> crawl_result \<Rightarrow> audit_options \<Rightarrow> nat \<Rightarrow> audit_result" where
  "run_auditors env cfg crawlResult options statusCode =
     (let auditResults =
            map (\<lambda>name. Fulfilled (runAuditorWithTimeout cfg name (env_plugin env name)))
              (enabledAuditors cfg options);
          compiledResults = compileAuditResults auditResults (cr_url crawlResult)
      in AuditResult
           \<lparr>d_url = Some (cr_url crawlResult), d_success = Some True, d_error = None,
            d_loadTime = Some (env_loadTime env), d_statusCode = Some statusCode,
            d_crawlDepth = Some (cr_depth crawlResult), d_crawlSource = Some (cr_source crawlResult),
            d_findings = cp_findings compiledResults,
            d_issues = Some (cp_issues compiledResults),
            d_warnings = Some (cp_warnings compiledResults),
            d_recommendations = Some (cp_recommendations compiledResults)\<rparr>)"

text \<open>The retry count of a URL: \<open>this.rateLimitRetries.get(url) || 0\<close>.\<close>

definition retry_count :: "engine_state \<Rightarrow> string \<Rightarrow> nat" where
  "retry_count st url = (case rateLimitRetries st url of None \<Rightarrow> 0 | Some n \<Rightarrow> n)"

lemma retry_count_applyRateLimit [simp]: "retry_count (applyRateLimit env st) url = retry_count st url"
  by (simp add: applyRateLimit_def retry_count_def Let_def)

lemma retry_count_navigate_from [simp]:
  "retry_count (snd (navigate_from env u retries attempt st)) url = retry_count st url"
proof (induction env u retries attempt st rule: navigate_from.induct)
  case (1 env u retries attempt st)
  show ?case
  proof (cases "attempt \<le> retries")
    case False
    then show ?thesis by (subst navigate_from.simps) simp
  next
    case le: True
    show ?thesis
    proof (cases "env_goto env (gotoCalls st)")
      case (GotoReturns r)
      with le show ?thesis
        by (subst navigate_from.simps) (simp add: Let_def retry_count_def)
    next
      case (GotoThrows msg)
      show ?thesis
      proof (cases "attempt = retries")
        case True
        with le GotoThrows show ?thesis
          by (subst navigate_from.simps) (simp add: Let_def retry_count_def)
      next
        case False
        with le GotoThrows "1.IH" [OF le refl refl GotoThrows False refl refl refl] show ?thesis
          by (subst navigate_from.simps) (simp add: Let_def retry_count_def)
      qed
    qed
  qed
qed

text \<open>
  \<open>auditSingleUrl\<close> and \<open>handleRateLimit\<close> call each other. The retry count of the URL
  grows with every call of \<open>handleRateLimit\<close> that retries, and it retries below 3 only.
\<close>

function auditSingleUrl ::
    "engine_env \<Rightarrow> engine_config \<Rightarrow> crawl_result \<Rightarrow> audit_options \<Rightarrow> engine_state \<Rightarrow>
       audit_result \<times> engine_state"
  and handleRateLimit ::
    "engine_env \<Rightarrow> engine_config \<Rightarrow> crawl_result \<Rightarrow> nat \<Rightarrow> engine_state \<Rightarrow>
       audit_result \<times> engine_state"
where
  "auditSingleUrl env cfg crawlResult options st =
     (case navigateWithRetry env cfg (cr_url crawlResult) (applyRateLimit env st) of
        (Inl msg, st') \<Rightarrow> (failed_audit env crawlResult msg, st')
      | (Inr None, st') \<Rightarrow>
          (failed_audit env crawlResult ''No response received during navigation'', st')
      | (Inr (Some response), st') \<Rightarrow>
          (let statusCode = gr_status response
           in if statusCode = 429 then handleRateLimit env cfg crawlResult statusCode st'
              else if statusCode \<ge> 400 then
                (failed_audit env crawlResult
                   (''HTTP '' @ show_nat statusCode @ '' - Failed to load page: '' @ gr_statusText response),
                 st')
              else (run_auditors env cfg crawlResult options statusCode, st')))"
| "handleRateLimit env cfg crawlResult statusCode st =
     (let url = cr_url crawlResult;
          retryCount = retry_count st url
      in if retryCount \<ge> 3 then (rate_limit_exceeded crawlResult, st)
         else
           (let exponentialDelay = cfg_rateLimitDelay cfg * 2 ^ retryCount;
                maxDelay = min exponentialDelay (cfg_maxRetryDelay cfg);
                jitterDelay = maxDelay + env_random env (randomCalls st) * 10000
            in auditSingleUrl env cfg crawlResult no_options
                 (st\<lparr>rateLimitRetries := (rateLimitRetries st)(url \<mapsto> retryCount + 1),
                     randomCalls := randomCalls st + 1,
                     events := events st @ [RateLimitSleep jitterDelay]\<rparr>)))"
  by pat_completeness auto
termination
proof (relation "measure (\<lambda>x. case x of
          Inl (env, cfg, crawlResult, options, st) \<Rightarrow> 2 * (3 - retry_count st (cr_url crawlResult)) + 1
        | Inr (env, cfg, crawlResult, statusCode, st) \<Rightarrow> 2 * (3 - retry_count st (cr_url crawlResult)))")
  show "wf (measure (\<lambda>x. case x of
          Inl (env, cfg, crawlResult, options, st) \<Rightarrow> 2 * (3 - retry_count st (cr_url crawlResult)) + 1
        | Inr (env, cfg, crawlResult, statusCode, st) \<Rightarrow> 2 * (3 - retry_count st (cr_url crawlResult))))"
    by simp
next
  fix env cfg crawlResult and options :: audit_options and st x1 st' x2 response statusCode
  assume "(x1, st') = navigateWithRetry env cfg (cr_url crawlResult) (applyRateLimit env st)"
  then have "st' = snd (navigate_from env (cr_url crawlResult) (cfg_retries cfg) 0 (applyRateLimit env st))"
    by (metis navigateWithRetry_def snd_conv)
  then have "retry_count st' (cr_url crawlResult) = retry_count st (cr_url crawlResult)"
    by simp
  then show "(Inr (env, cfg, crawlResult, statusCode, st'), Inl (env, cfg, crawlResult, options, st))
       \<in> measure (\<lambda>x. case x of
          Inl (env, cfg, crawlResult, options, st) \<Rightarrow> 2 * (3 - retry_count st (cr_url crawlResult)) + 1
        | Inr (env, cfg, crawlResult, statusCode, st) \<Rightarrow> 2 * (3 - retry_count st (cr_url crawlResult)))"
    by simp
next
  fix env cfg crawlResult and statusCode :: nat and st x xa xb xc xd
  assume "x = cr_url crawlResult" "xa = retry_count st x" "\<not> 3 \<le> xa"
  then show "(Inl (env, cfg, crawlResult, no_options,
            st\<lparr>rateLimitRetries := (rateLimitRetries st)(x \<mapsto> xa + 1), randomCalls := randomCalls st + 1,
               events := events st @ [RateLimitSleep xd]\<rparr>),
        Inr (env, cfg, crawlResult, statusCode, st))
       \<in> measure (\<lambda>x. case x of
          Inl (env, cfg, crawlResult, options, st) \<Rightarrow> 2 * (3 - retry_count st (cr_url crawlResult)) + 1
        | Inr (env, cfg, crawlResult, statusCode, st) \<Rightarrow> 2 * (3 - retry_count st (cr_url crawlResult)))"
    by (simp add: retry_count_def)
qed

declare auditSingleUrl.simps [simp del] handleRateLimit.simps [simp del]

text \<open>The projections of a trace the claims speak about.\<close>

fun navigations :: "event list \<Rightarrow> nat" where
  "navigations [] = 0"
| "navigations (Navigate u # es) = Suc (navigations es)"
| "navigations (e # es) = navigations es"

fun rate_limit_sleeps :: "event list \<Rightarrow> real list" where
  "rate_limit_sleeps [] = []"
| "rate_limit_sleeps (RateLimitSleep d # es) = d # rate_limit_sleeps es"
| "rate_limit_sleeps (e # es) = rate_limit_sleeps es"

subsection \<open>Contributions of the auditor runs\<close>

text \<open>What one auditor run adds to the compiled lists.\<close>

definition run_issues :: "engine_config \<Rightarrow> string \<Rightarrow> nat \<times> string \<times> plugin_outcome \<Rightarrow> issue list" where
  "run_issues cfg url run =
     (case run of (index, name, outcome) \<Rightarrow>
        (case outcome of
           Returns result \<Rightarrow> result_issues result
         | Throws msg \<Rightarrow>
             [audit_failure (if name = [] then ''unknown'' else name) url msg ''fulfilled'' index]
         | Sleeps \<Rightarrow>
             [audit_failure (if name = [] then ''unknown'' else name) url
                (name @ '' auditor timeout after '' @ show_nat (cfg_timeout cfg) @ ''ms'')
                ''fulfilled'' index]))"

subsection \<open>A concrete engine and page\<close>

text \<open>
  The engine as \<open>LandingPageAuditor\<close> configures it by default, with both detectors asked
  for; a landing page that answers 200; the meta tag auditor outlasts its timer, the
  canonical auditor returns one warning, the other auditors return \<open>null\<close>.
\<close>

definition example_config :: engine_config where
  "example_config =
     \<lparr>cfg_timeout = 90000, cfg_retries = 3, cfg_includePerformance = False,
      cfg_includeAccessibility = False, cfg_includeVisualRegression = True,
      cfg_includeStructureComparison = True, cfg_rateLimitDelay = 30000,
      cfg_maxRetryDelay = 120000\<rparr>"

definition example_options :: audit_options where
  "example_options =
     \<lparr>opt_includePerformance = False, opt_includeAccessibility = False, opt_includeSecurity = False,
      opt_includeVisualRegression = True, opt_includeStructureComparison = True\<rparr>"

definition example_crawl :: crawl_result where
  "example_crawl =
     \<lparr>cr_url = ''https://example.com/'', cr_discovered = True, cr_depth = 0, cr_source = ''landing-page''\<rparr>"

definition canonical_warning :: issue where
  "canonical_warning =
     \<lparr>i_type = ''canonical_missing'', i_severity = ''warning'', i_auditor = None,
      i_details = ExternalDetails ''no canonical link''\<rparr>"

definition slow_plugin_env :: engine_env where
  "slow_plugin_env =
     \<lparr>env_goto = (\<lambda>k. GotoReturns (Some \<lparr>gr_status = 200, gr_statusText = ''OK''\<rparr>)),
      env_random = (\<lambda>k. 1 / 2),
      env_plugin = (\<lambda>name.
         if name = ''metaTags'' then Sleeps
         else if name = ''canonical'' then
           Returns (Some \<lparr>pr_issues = Some [], pr_warnings = Some [canonical_warning],
                          pr_recommendations = Some [], pr_payload = ''score: 90''\<rparr>)
         else Returns None),
      env_loadTime = 1500\<rparr>"

definition fresh_engine :: engine_state where
  "fresh_engine =
     \<lparr>rateLimitRetries = (\<lambda>url. None), requestCount = 0, gotoCalls = 0, randomCalls = 0, events = []\<rparr>"

subsection \<open>States of a rate-limited audit\<close>

text \<open>
  The state after a navigation that returned at once, after the backoff of
  \<open>handleRateLimit\<close>, and after one whole rate-limited attempt: pacing, navigation, backoff.
\<close>

definition navigated :: "string \<Rightarrow> engine_state \<Rightarrow> engine_state" where
  "navigated url st = st\<lparr>gotoCalls := gotoCalls st + 1, events := events st @ [Navigate url]\<rparr>"

definition backed_off :: "engine_env \<Rightarrow> engine_config \<Rightarrow> string \<Rightarrow> engine_state \<Rightarrow> engine_state" where
  "backed_off env cfg url st =
     st\<lparr>rateLimitRetries := (rateLimitRetries st)(url \<mapsto> retry_count st url + 1),
        randomCalls := randomCalls st + 1,
        events := events st @
          [RateLimitSleep (min (cfg_rateLimitDelay cfg * 2 ^ retry_count st url) (cfg_maxRetryDelay cfg)
                           + env_random env (randomCalls st) * 10000)]\<rparr>"

definition rate_limited_round :: "engine_env \<Rightarrow> engine_config \<Rightarrow> string \<Rightarrow> engine_state \<Rightarrow> engine_state" where
  "rate_limited_round env cfg url st = backed_off env cfg url (navigated url (applyRateLimit env st))"

text \<open>The number of random draws of \<open>applyRateLimit\<close>: two when the cooldown applies.\<close>

definition pacing_draws :: "engine_state \<Rightarrow> nat" where
  "pacing_draws st = (if requestCount st > 0 \<and> requestCount st mod 10 = 0 then 2 else 1)"

text \<open>An endpoint that answers every request with 429, and random draws of one half.\<close>

definition rate_limited_env :: engine_env where
  "rate_limited_env =
     \<lparr>env_goto = (\<lambda>k. GotoReturns (Some \<lparr>gr_status = 429, gr_statusText = ''Too Many Requests''\<rparr>)),
      env_random = (\<lambda>k. 1 / 2),
      env_plugin = (\<lambda>name. Returns None),
      env_loadTime = 1500\<rparr>"

section \<open>Crawler engine\<close>

text \<open>
  The builtins the crawler calls are parameters: \<open>new URL(url)\<close> (\<open>None\<close> when it
  throws), \<open>new URL(href, base).href\<close>, the serialisation of a URL object, and
  \<open>new RegExp(pattern, "i").test(subject)\<close> (\<open>None\<close> when the pattern is invalid and the
  constructor throws).
\<close>

record url_parts =
  u_protocol :: string
  u_hostname :: string
  u_port :: string
  u_pathname :: string
  u_rest :: string

record url_api =
  api_parse :: "string \<Rightarrow> url_parts option"
  api_resolve :: "string \<Rightarrow> string \<Rightarrow> string option"
  api_serialize :: "url_parts \<Rightarrow> string"
  api_regex_test :: "string \<Rightarrow> string \<Rightarrow> bool option"

record crawler_config =
  cc_maxDepth :: nat
  cc_maxUrls :: nat
  cc_includeBinaryUrls :: bool
  cc_excludePatterns :: "string list"
  cc_includePatterns :: "string list"

record crawl_options =
  co_followExternalLinks :: bool

record link =
  l_href :: string
  l_text :: string
  l_title :: string
  l_element :: string

subsection \<open>UrlResolver\<close>

text \<open>\<open>pathname.replace(/\/+/g, "/")\<close>: every run of slashes becomes one slash.\<close>

fun collapse_slashes :: "string \<Rightarrow> string" where
  "collapse_slashes (a # b # cs) =
     (if a = CHR ''/'' \<and> b = CHR ''/'' then collapse_slashes (b # cs)
      else a # collapse_slashes (b # cs))"
| "collapse_slashes cs = cs"

definition ends_with :: "string \<Rightarrow> string \<Rightarrow> bool" where
  "ends_with s e = (length e \<le> length s \<and> drop (length s - length e) s = e)"

definition starts_with :: "string \<Rightarrow> string \<Rightarrow> bool" where
  "starts_with s p = (take (length p) s = p)"

definition normalize :: "url_api \<Rightarrow> string \<Rightarrow> string" where
  "normalize api url =
     (case api_parse api url of
        None \<Rightarrow> url
      | Some urlObj \<Rightarrow>
          (let urlObj =
                 (if (u_protocol urlObj = ''http:'' \<and> u_port urlObj = ''80'') \<or>
                     (u_protocol urlObj = ''https:'' \<and> u_port urlObj = ''443'')
                  then urlObj\<lparr>u_port := []\<rparr> else urlObj);
               urlObj = urlObj\<lparr>u_pathname := collapse_slashes (u_pathname urlObj)\<rparr>;
               urlObj =
                 (if ends_with (u_pathname urlObj) ''/'' \<and> length (u_pathname urlObj) > 1
                  then urlObj\<lparr>u_pathname := butlast (u_pathname urlObj)\<rparr> else urlObj)
           in api_serialize api urlObj))"

definition resolve :: "url_api \<Rightarrow> string \<Rightarrow> string \<Rightarrow> string option" where
  "resolve api href baseUrl =
     (if starts_with href ''http://'' \<or> starts_with href ''https://'' then Some href
      else if starts_with href ''//'' then
        (case api_parse api baseUrl of
           None \<Rightarrow> None
         | Some base \<Rightarrow> Some (u_protocol base @ href))
      else
        (case api_parse api baseUrl of
           None \<Rightarrow> None
         | Some base \<Rightarrow> api_resolve api href baseUrl))"

definition extractDomain :: "url_api \<Rightarrow> string \<Rightarrow> string option" where
  "extractDomain api url = (case api_parse api url of None \<Rightarrow> None | Some u \<Rightarrow> Some (u_hostname u))"

subsection \<open>The inclusion policy\<close>

text \<open>\<open>xs.some(f)\<close> where \<open>f\<close> may throw: it stops at the first element that satisfies \<open>f\<close>.\<close>

fun js_some :: "('a \<Rightarrow> bool option) \<Rightarrow> 'a list \<Rightarrow> bool option" where
  "js_some f [] = Some False"
| "js_some f (x # xs) =
     (case f x of None \<Rightarrow> None | Some True \<Rightarrow> Some True | Some False \<Rightarrow> js_some f xs)"

definition to_lower :: "char \<Rightarrow> char" where
  "to_lower c =
     (case map_of (zip ''ABCDEFGHIJKLMNOPQRSTUVWXYZ'' ''abcdefghijklmnopqrstuvwxyz'') c of
        None \<Rightarrow> c | Some l \<Rightarrow> l)"

text \<open>The regular expression \<open>binaryExtensions\<close>, matched without regard to case.\<close>

definition binaryExtensions :: "string \<Rightarrow> bool" where
  "binaryExtensions pathname =
     list_ex (\<lambda>ext. ends_with (map to_lower pathname) (CHR ''.'' # ext))
       [''pdf'', ''doc'', ''docx'', ''xls'', ''xlsx'', ''ppt'', ''pptx'', ''zip'', ''rar'', ''tar'', ''gz'',
        ''mp3'', ''mp4'', ''avi'', ''mov'', ''jpg'', ''jpeg'', ''png'', ''gif'', ''svg'', ''ico'', ''css'', ''js'']"

definition shouldIncludeUrl ::
  "url_api \<Rightarrow> crawler_config \<Rightarrow> string option \<Rightarrow> string option \<Rightarrow> crawl_options \<Rightarrow> bool" where
  "shouldIncludeUrl api cfg url baseDomain options =
     (case url of
        None \<Rightarrow> False
      | Some url \<Rightarrow>
          if url = [] then False
          else
            (case api_parse api url of
               None \<Rightarrow> False
             | Some urlObj \<Rightarrow>
                 if \<not> co_followExternalLinks options \<and> Some (u_hostname urlObj) \<noteq> baseDomain then False
                 else
                   (case js_some (\<lambda>pattern. api_regex_test api pattern url) (cc_excludePatterns cfg) of
                      None \<Rightarrow> False
                    | Some True \<Rightarrow> False
                    | Some False \<Rightarrow>
                        (case (if length (cc_includePatterns cfg) > 0
                               then js_some (\<lambda>pattern. api_regex_test api pattern url) (cc_includePatterns cfg)
                               else Some True) of
                           None \<Rightarrow> False
                         | Some False \<Rightarrow> False
                         | Some True \<Rightarrow>
                             if \<not> cc_includeBinaryUrls cfg \<and> binaryExtensions (u_pathname urlObj) then False
                             else if u_protocol urlObj \<notin> set [''http:'', ''https:''] then False
                             else True))))"

subsection \<open>Cache and frontier\<close>

text \<open>
  The cache is a map in insertion order with at most \<open>maxSize\<close> = 1000 entries. Whether an
  entry has outlived its TTL when it is read depends on the clock; it is the parameter
  \<open>fresh\<close>. The sets of URLs are lists without repetition, in insertion order.
\<close>

definition cache_get :: "(string \<Rightarrow> bool) \<Rightarrow> string \<Rightarrow> (string \<times> link list) list \<Rightarrow>
    link list option \<times> (string \<times> link list) list" where
  "cache_get fresh key cache =
     (case map_of cache key of
        None \<Rightarrow> (None, cache)
      | Some v \<Rightarrow> if fresh key then (Some v, cache) else (None, AList.delete key cache))"

definition cache_set :: "string \<Rightarrow> link list \<Rightarrow> (string \<times> link list) list \<Rightarrow> (string \<times> link list) list" where
  "cache_set key v cache =
     AList.update key v (if length cache \<ge> 1000 then tl cache else cache)"

definition set_add :: "'a \<Rightarrow> 'a list \<Rightarrow> 'a list" where
  "set_add x xs = (if x \<in> set xs then xs else xs @ [x])"

record crawler_env =
  ce_fetch :: "string \<Rightarrow> string + link list"
  ce_fresh :: "string \<Rightarrow> bool"

record crawler_state =
  crawlQueue :: "(string \<times> nat) list"
  discoveredUrls :: "string list"
  visitedUrls :: "string list"
  failedUrls :: "string list"
  linkCache :: "(string \<times> link list) list"

text \<open>The body of the loop over the links of a page.\<close>

definition link_step ::
  "url_api \<Rightarrow> crawler_config \<Rightarrow> string \<Rightarrow> nat \<Rightarrow> string option \<Rightarrow> crawl_options \<Rightarrow> link \<Rightarrow>
     crawler_state \<Rightarrow> crawler_state" where
  "link_step api cfg url depth baseDomain options lnk st =
     (let resolvedUrl = resolve api (l_href lnk) url
      in if shouldIncludeUrl api cfg resolvedUrl baseDomain options then
           (case resolvedUrl of
              None \<Rightarrow> st
            | Some r \<Rightarrow>
                if r \<notin> set (discoveredUrls st) then
                  (let st = st\<lparr>discoveredUrls := discoveredUrls st @ [r]\<rparr>
                   in if depth < cc_maxDepth cfg
                      then st\<lparr>crawlQueue := crawlQueue st @ [(r, depth + 1)]\<rparr>
                      else st)
                else st)
         else st)"

text \<open>
  \<open>crawlPage\<close>. \<open>ce_fetch\<close> is everything between opening the context and the extracted
  links: the links, or the message of the error thrown on the way.
\<close>

definition crawlPage ::
  "url_api \<Rightarrow> crawler_env \<Rightarrow> crawler_config \<Rightarrow> string \<Rightarrow> nat \<Rightarrow> string option \<Rightarrow> crawl_options \<Rightarrow>
     crawler_state \<Rightarrow> crawler_state" where
  "crawlPage api env cfg url depth baseDomain options st =
     (let st = st\<lparr>visitedUrls := set_add url (visitedUrls st)\<rparr>;
          cacheKey = ''crawl:'' @ url
      in case cache_get (ce_fresh env) cacheKey (linkCache st) of
           (cached, cache) \<Rightarrow>
             (let st = st\<lparr>linkCache := cache\<rparr>
              in case cached of
                   Some links \<Rightarrow> fold (link_step api cfg url depth baseDomain options) links st
                 | None \<Rightarrow>
                     (case ce_fetch env url of
                        Inl msg \<Rightarrow> st\<lparr>failedUrls := set_add url (failedUrls st)\<rparr>
                      | Inr links \<Rightarrow>
                          fold (link_step api cfg url depth baseDomain options) links
                            (st\<lparr>linkCache := cache_set cacheKey links (linkCache st)\<rparr>))))"

subsection \<open>The discovery loop\<close>

text \<open>
  A link either leaves the state as it is or adds one URL to the discovered set; this is
  what makes the loop of \<open>discoverUrls\<close> end.
\<close>

lemma link_step_progress:
  "link_step api cfg url depth baseDomain options lnk st = st \<or>
   length (discoveredUrls (link_step api cfg url depth baseDomain options lnk st)) =
     Suc (length (discoveredUrls st))"
  by (simp add: link_step_def Let_def split: option.split)

lemma fold_link_step_progress:
  "fold (link_step api cfg url depth baseDomain options) links st = st \<or>
   length (discoveredUrls st) <
     length (discoveredUrls (fold (link_step api cfg url depth baseDomain options) links st))"
proof (induction links arbitrary: st)
  case Nil
  show ?case by simp
next
  case (Cons l links)
  from link_step_progress [of api cfg url depth baseDomain options l st]
    Cons.IH [of "link_step api cfg url depth baseDomain options l st"]
  show ?case by auto
qed

lemma crawlPage_progress:
  "(discoveredUrls (crawlPage api env cfg url depth baseDomain options st) = discoveredUrls st \<and>
    crawlQueue (crawlPage api env cfg url depth baseDomain options st) = crawlQueue st) \<or>
   length (discoveredUrls st) <
     length (discoveredUrls (crawlPage api env cfg url depth baseDomain options st))"
proof -
  have f: "(discoveredUrls (fold (link_step api cfg url depth baseDomain options) links s) = discoveredUrls s \<and>
            crawlQueue (fold (link_step api cfg url depth baseDomain options) links s) = crawlQueue s) \<or>
           length (discoveredUrls s) <
             length (discoveredUrls (fold (link_step api cfg url depth baseDomain options) links s))"
    for links s
    using fold_link_step_progress [of api cfg url depth baseDomain options links s] by auto
  obtain cached cache where cg:
    "cache_get (ce_fresh env) (''crawl:'' @ url) (linkCache (st\<lparr>visitedUrls := set_add url (visitedUrls st)\<rparr>))
       = (cached, cache)"
    by (cases "cache_get (ce_fresh env) (''crawl:'' @ url)
                 (linkCache (st\<lparr>visitedUrls := set_add url (visitedUrls st)\<rparr>))")
  let ?s = "st\<lparr>visitedUrls := set_add url (visitedUrls st), linkCache := cache\<rparr>"
  show ?thesis
  proof (cases cached)
    case (Some links)
    then have "crawlPage api env cfg url depth baseDomain options st =
        fold (link_step api cfg url depth baseDomain options) links ?s"
      using cg by (simp add: crawlPage_def Let_def)
    with f [of links ?s] show ?thesis by simp
  next
    case None
    show ?thesis
    proof (cases "ce_fetch env url")
      case (Inl msg)
      then have "crawlPage api env cfg url depth baseDomain options st =
          ?s\<lparr>failedUrls := set_add url (failedUrls ?s)\<rparr>"
        using cg None by (simp add: crawlPage_def Let_def)
      then show ?thesis by simp
    next
      case (Inr links)
      let ?t = "?s\<lparr>linkCache := cache_set (''crawl:'' @ url) links (linkCache ?s)\<rparr>"
      from Inr have "crawlPage api env cfg url depth baseDomain options st =
          fold (link_step api cfg url depth baseDomain options) links ?t"
        using cg None by (simp add: crawlPage_def Let_def)
      with f [of links ?t] show ?thesis by simp
    qed
  qed
qed

function crawl_loop ::
  "url_api \<Rightarrow> crawler_env \<Rightarrow> crawler_config \<Rightarrow> string option \<Rightarrow> crawl_options \<Rightarrow>
     crawler_state \<Rightarrow> crawler_state" where
  "crawl_loop api env cfg baseDomain options st =
     (case crawlQueue st of
        [] \<Rightarrow> st
      | (url, depth) # rest \<Rightarrow>
          if length (discoveredUrls st) < cc_maxUrls cfg then
            (if url \<in> set (visitedUrls st) \<or> depth > cc_maxDepth cfg
             then crawl_loop api env cfg baseDomain options (st\<lparr>crawlQueue := rest\<rparr>)
             else crawl_loop api env cfg baseDomain options
                    (crawlPage api env cfg url depth baseDomain options (st\<lparr>crawlQueue := rest\<rparr>)))
          else st)"
  by pat_completeness auto
termination
proof (relation "measures
    [\<lambda>(api, env, cfg, baseDomain, options, st). cc_maxUrls cfg - length (discoveredUrls st),
     \<lambda>(api, env, cfg, baseDomain, options, st). length (crawlQueue st)]")
  show "wf (measures
    [\<lambda>(api, env, cfg, baseDomain, options, st). cc_maxUrls cfg - length (discoveredUrls st),
     \<lambda>(api, env, cfg, baseDomain, options, st). length (crawlQueue st)])"
    by simp
next
  fix api :: url_api and env :: crawler_env and cfg :: crawler_config and baseDomain :: "string option"
    and options :: crawl_options and st :: crawler_state
    and x :: "string \<times> nat" and rest :: "(string \<times> nat) list" and url :: string and depth :: nat
  assume "crawlQueue st = x # rest"
  then show "((api, env, cfg, baseDomain, options, st\<lparr>crawlQueue := rest\<rparr>),
              (api, env, cfg, baseDomain, options, st))
    \<in> measures
        [\<lambda>(api, env, cfg, baseDomain, options, st). cc_maxUrls cfg - length (discoveredUrls st),
         \<lambda>(api, env, cfg, baseDomain, options, st). length (crawlQueue st)]"
    by simp
next
  fix api :: url_api and env :: crawler_env and cfg :: crawler_config and baseDomain :: "string option"
    and options :: crawl_options and st :: crawler_state
    and x :: "string \<times> nat" and rest :: "(string \<times> nat) list" and url :: string and depth :: nat
  assume q: "crawlQueue st = x # rest" and lt: "length (discoveredUrls st) < cc_maxUrls cfg"
  from crawlPage_progress [of api env cfg url depth baseDomain options "st\<lparr>crawlQueue := rest\<rparr>"]
  show "((api, env, cfg, baseDomain, options,
           crawlPage api env cfg url depth baseDomain options (st\<lparr>crawlQueue := rest\<rparr>)),
          (api, env, cfg, baseDomain, options, st))
    \<in> measures
        [\<lambda>(api, env, cfg, baseDomain, options, st). cc_maxUrls cfg - length (discoveredUrls st),
         \<lambda>(api, env, cfg, baseDomain, options, st). length (crawlQueue st)]"
    using q lt by auto
qed

declare crawl_loop.simps [simp del]

text \<open>\<open>pathname.split("/").filter(Boolean).length\<close>: the number of non-empty segments.\<close>

fun count_segments :: "bool \<Rightarrow> string \<Rightarrow> nat" where
  "count_segments inside [] = 0"
| "count_segments inside (c # cs) =
     (if c = CHR ''/'' then count_segments False cs
      else (if inside then 0 else 1) + count_segments True cs)"

definition getUrlDepth :: "url_api \<Rightarrow> string \<Rightarrow> string \<Rightarrow> nat" where
  "getUrlDepth api url startUrl =
     (case api_parse api startUrl of
        None \<Rightarrow> 0
      | Some s \<Rightarrow>
          (case api_parse api url of
             None \<Rightarrow> 0
           | Some u \<Rightarrow> count_segments False (u_pathname u) - count_segments False (u_pathname s)))"

definition getUrlSource :: "string \<Rightarrow> string \<Rightarrow> string" where
  "getUrlSource url startUrl = (if url = startUrl then ''landing-page'' else ''discovered'')"

text \<open>
  \<open>discoverUrls\<close>, from the state the engine is in; it returns the results and the state
  afterwards. The rate limiter only delays the loop and is not modelled.
\<close>

definition discoverUrls ::
  "url_api \<Rightarrow> crawler_env \<Rightarrow> crawler_config \<Rightarrow> string \<Rightarrow> crawl_options \<Rightarrow> crawler_state \<Rightarrow>
     crawl_result list \<times> crawler_state" where
  "discoverUrls api env cfg startUrl options st =
     (let normalizedStartUrl = normalize api startUrl;
          baseDomain = extractDomain api normalizedStartUrl;
          st = st\<lparr>crawlQueue := crawlQueue st @ [(normalizedStartUrl, 0)],
                  discoveredUrls := set_add normalizedStartUrl (discoveredUrls st)\<rparr>;
          st = crawl_loop api env cfg baseDomain options st;
          results = map (\<lambda>url. \<lparr>cr_url = url, cr_discovered = True,
                                  cr_depth = getUrlDepth api url normalizedStartUrl,
                                  cr_source = getUrlSource url normalizedStartUrl\<rparr>)
                      (discoveredUrls st)
      in (results, st))"

definition new_crawler :: crawler_state where
  "new_crawler =
     \<lparr>crawlQueue = [], discoveredUrls = [], visitedUrls = [], failedUrls = [], linkCache = []\<rparr>"

subsection \<open>A plain URL parser and a small site for concrete runs\<close>

text \<open>
  The theorems hold for every URL parser. Concrete runs use this one, which reads URLs of
  the shape scheme://host/path with scheme http or https and no port, query or fragment,
  resolves hrefs that begin with a slash against the origin of the base, and tests a
  pattern without metacharacters as a case-insensitive substring.
\<close>

definition plain_parse :: "string \<Rightarrow> url_parts option" where
  "plain_parse s =
     (let scheme = (if starts_with s ''https://'' then Some ''https:''
                    else if starts_with s ''http://'' then Some ''http:'' else None)
      in case scheme of
           None \<Rightarrow> None
         | Some p \<Rightarrow>
             (let r = drop (length p + 2) s;
                  host = takeWhile (\<lambda>c. c \<noteq> CHR ''/'') r;
                  path = dropWhile (\<lambda>c. c \<noteq> CHR ''/'') r
              in if host = [] then None
                 else Some \<lparr>u_protocol = p, u_hostname = host, u_port = [],
                            u_pathname = (if path = [] then ''/'' else path), u_rest = []\<rparr>))"

definition plain_serialize :: "url_parts \<Rightarrow> string" where
  "plain_serialize u =
     u_protocol u @ ''//'' @ u_hostname u @ (if u_port u = [] then [] else '':'' @ u_port u)
       @ u_pathname u @ u_rest u"

definition plain_url_api :: url_api where
  "plain_url_api =
     \<lparr>api_parse = plain_parse,
      api_resolve = (\<lambda>href baseUrl.
         case plain_parse baseUrl of
           None \<Rightarrow> None
         | Some b \<Rightarrow> if starts_with href ''/''
                     then Some (u_protocol b @ ''//'' @ u_hostname b @ href) else None),
      api_serialize = plain_serialize,
      api_regex_test = (\<lambda>pattern subject.
         Some (js_includes (map to_lower subject) (map to_lower pattern)))\<rparr>"

definition anchor :: "string \<Rightarrow> link" where
  "anchor href = \<lparr>l_href = href, l_text = [], l_title = [], l_element = ''a''\<rparr>"

text \<open>
  A site whose landing page links to three pages of the same domain, which link nowhere;
  and a crawler allowed two URLs.
\<close>

definition small_site :: crawler_env where
  "small_site =
     \<lparr>ce_fetch = (\<lambda>url. if url = ''https://example.com/''
                           then Inr [anchor ''/a'', anchor ''/b'', anchor ''/c'']
                           else Inr []),
      ce_fresh = (\<lambda>key. True)\<rparr>"

definition two_urls_config :: crawler_config where
  "two_urls_config =
     \<lparr>cc_maxDepth = 3, cc_maxUrls = 2, cc_includeBinaryUrls = False,
      cc_excludePatterns = [], cc_includePatterns = []\<rparr>"

section \<open>Properties of AuditResult\<close>

lemma AuditResult_success:
  "ar_success (AuditResult d) = (case d_success d of None \<Rightarrow> False | Some b \<Rightarrow> b)"
  unfolding AuditResult_def Let_def by (rule audit_result.select_convs)

lemma AuditResult_issues:
  "ar_issues (AuditResult d) = (case d_issues d of None \<Rightarrow> [] | Some xs \<Rightarrow> xs)"
  unfolding AuditResult_def Let_def by (rule audit_result.select_convs)

lemma AuditResult_warnings:
  "ar_warnings (AuditResult d) = (case d_warnings d of None \<Rightarrow> [] | Some xs \<Rightarrow> xs)"
  unfolding AuditResult_def Let_def by (rule audit_result.select_convs)

lemma AuditResult_score:
  "auditScore (AuditResult d) =
     calculateAuditScore (ar_success (AuditResult d)) (ar_issues (AuditResult d))
       (ar_warnings (AuditResult d))"
  unfolding AuditResult_success AuditResult_issues AuditResult_warnings
  unfolding AuditResult_def Let_def by (rule audit_result.select_convs)

lemma clamp_bounds: "0 \<le> max (0::int) (min 100 x) \<and> max (0::int) (min 100 x) \<le> 100"
  by simp

lemma calculateAuditScore_eq:
  "calculateAuditScore s i w =
     (if s then max 0 (min 100
             (100 - int (length (filter (\<lambda>i. i_severity i = ''error'') i)) * 15
                  - int (length w) * 5))
      else 0)"
  by (cases s) (simp_all only: calculateAuditScore_def Let_def not_True_eq_False not_False_eq_True if_True if_False)

text \<open>
  C10. The score of every AuditResult lies between 0 and 100; it is 0 when the result is
  not a success, and otherwise it is 100 minus 15 for each issue of severity "error" minus 5
  for each warning, clamped to the range from 0 to 100.
\<close>

theorem C10_auditScore:
  "0 \<le> auditScore (AuditResult d) \<and> auditScore (AuditResult d) \<le> 100 \<and>
   auditScore (AuditResult d) =
     (if ar_success (AuditResult d)
      then max 0 (min 100
             (100 - int (length (filter (\<lambda>i. i_severity i = ''error'') (ar_issues (AuditResult d)))) * 15
                  - int (length (ar_warnings (AuditResult d))) * 5))
      else 0)"
proof -
  let ?s = "ar_success (AuditResult d)"
  have eq: "auditScore (AuditResult d) =
     (if ?s then max 0 (min 100
             (100 - int (length (filter (\<lambda>i. i_severity i = ''error'') (ar_issues (AuditResult d)))) * 15
                  - int (length (ar_warnings (AuditResult d))) * 5))
      else 0)"
    unfolding AuditResult_score by (rule calculateAuditScore_eq)
  show ?thesis
  proof (cases ?s)
    case True
    with eq clamp_bounds show ?thesis by (simp only: if_True) 
  next
    case False
    with eq show ?thesis by (simp only: if_False) simp
  qed
qed

section \<open>Properties of the heading diff\<close>

lemma heading_step_hier:
  "hierarchyChanges (heading_step c i b ch) =
     hierarchyChanges ch @
       (if i < length c \<and> h_level b \<noteq> h_level (c ! i) then [hierarchy_entry i b (c ! i)] else [])"
  by (simp add: heading_step_def js_index_def)

lemma heading_step_modified:
  "hd_modified (heading_step c i b ch) =
     hd_modified ch @
       (if i < length c \<and> h_level b = h_level (c ! i) \<and> h_text b \<noteq> h_text (c ! i)
        then [modified_entry i b (c ! i)] else [])"
  by (simp add: heading_step_def js_index_def)

lemma heading_step_removed:
  "hd_removed (heading_step c i b ch) = hd_removed ch @ (if i < length c then [] else [b])"
  by (simp add: heading_step_def js_index_def)

lemma heading_step_added: "hd_added (heading_step c i b ch) = hd_added ch"
  by (simp add: heading_step_def js_index_def)

lemma upt_shift: "[0..<Suc n] = 0 # map Suc [0..<n]"
  by (simp add: upt_conv_Cons map_Suc_upt del: upt_Suc)

lemma forEach_hier:
  "hierarchyChanges (forEach_index (heading_step c) bs i ch) =
     hierarchyChanges ch @
       map (\<lambda>k. hierarchy_entry (i + k) (bs ! k) (c ! (i + k)))
         (filter (\<lambda>k. i + k < length c \<and> h_level (bs ! k) \<noteq> h_level (c ! (i + k))) [0..<length bs])"
proof (induction bs arbitrary: i ch)
  case Nil
  show ?case by simp
next
  case (Cons b bs)
  show ?case
    by (simp add: Cons.IH heading_step_hier upt_shift filter_map o_def del: upt_Suc)
qed

lemma forEach_modified:
  "hd_modified (forEach_index (heading_step c) bs i ch) =
     hd_modified ch @
       map (\<lambda>k. modified_entry (i + k) (bs ! k) (c ! (i + k)))
         (filter (\<lambda>k. i + k < length c \<and> h_level (bs ! k) = h_level (c ! (i + k)) \<and>
                       h_text (bs ! k) \<noteq> h_text (c ! (i + k))) [0..<length bs])"
proof (induction bs arbitrary: i ch)
  case Nil
  show ?case by simp
next
  case (Cons b bs)
  show ?case
    by (simp add: Cons.IH heading_step_modified upt_shift filter_map o_def del: upt_Suc)
qed

lemma forEach_removed:
  "hd_removed (forEach_index (heading_step c) bs i ch) = hd_removed ch @ drop (length c - i) bs"
proof (induction bs arbitrary: i ch)
  case Nil
  show ?case by simp
next
  case (Cons b bs)
  show ?case
  proof (cases "i < length c")
    case True
    then have "length c - i = Suc (length c - Suc i)" by simp
    then show ?thesis by (simp add: Cons.IH heading_step_removed True)
  next
    case False
    then show ?thesis by (simp add: Cons.IH heading_step_removed)
  qed
qed

lemma forEach_added: "hd_added (forEach_index (heading_step c) bs i ch) = hd_added ch"
  by (induction bs arbitrary: i ch) (simp_all add: heading_step_added)

lemma compareHeadings_hier:
  "hierarchyChanges (compareHeadings b c) =
     map (\<lambda>k. hierarchy_entry k (b ! k) (c ! k))
       (filter (\<lambda>k. k < length c \<and> h_level (b ! k) \<noteq> h_level (c ! k)) [0..<length b])"
  using forEach_hier [of c b 0 no_heading_changes]
  by (simp add: compareHeadings_def Let_def no_heading_changes_def)

lemma compareHeadings_modified:
  "hd_modified (compareHeadings b c) =
     map (\<lambda>k. modified_entry k (b ! k) (c ! k))
       (filter (\<lambda>k. k < length c \<and> h_level (b ! k) = h_level (c ! k) \<and> h_text (b ! k) \<noteq> h_text (c ! k))
          [0..<length b])"
  using forEach_modified [of c b 0 no_heading_changes]
  by (simp add: compareHeadings_def Let_def no_heading_changes_def)

lemma compareHeadings_removed: "hd_removed (compareHeadings b c) = drop (length c) b"
  using forEach_removed [of c b 0 no_heading_changes]
  by (simp add: compareHeadings_def Let_def no_heading_changes_def)

lemma compareHeadings_added: "hd_added (compareHeadings b c) = drop (length b) c"
  using forEach_added [of c b 0 no_heading_changes]
  by (simp add: compareHeadings_def Let_def no_heading_changes_def)

lemma impact_of_mismatch:
  assumes "fl \<noteq> tv" "1 \<le> tv"
  shows "assessHierarchyImpact fl tv =
           (if fl = 1 \<and> tv \<noteq> 1 then Critical else if fl < tv then Warning else Improvement)"
  using assms by (auto simp add: assessHierarchyImpact_def)

lemma filter_eq_upt: "filter (\<lambda>k. k = i \<and> P k) [0..<n] = (if i < n \<and> P i then [i] else [])"
  by (induction n) auto

lemma hier_index: "hc_index (hierarchy_entry k b c) = k"
  by (simp add: hierarchy_entry_def)

lemma hier_count:
  "length (filter (\<lambda>h. hc_index h = i) (hierarchyChanges (compareHeadings b c))) =
     (if i < length b \<and> i < length c \<and> h_level (b ! i) \<noteq> h_level (c ! i) then 1 else 0)"
  by (simp add: compareHeadings_hier filter_map o_def hier_index filter_eq_upt conj_commute conj_left_commute)

text \<open>
  C5. The heading diff is positional. For heading lists whose current levels are at least 1
  (the levels of h1 to h6): each index present in both lists with differing levels yields
  exactly one hierarchy change, from "H" and the baseline level to "H" and the current
  level, with impact critical if the baseline level was 1 and the current one is not, else
  warning if the current level is greater, else improvement; equal levels with differing
  text yield a modified entry; the current headings past the baseline length are the added
  ones and the baseline headings past the current length are the removed ones.
  The witness is the run on baseline [H1, H2] and current [H3, H2]: exactly one hierarchy
  change, from H1 to H3, critical.
\<close>

theorem C5_heading_diff:
  assumes "\<forall>h \<in> set c. 1 \<le> h_level h"
  shows
   "hierarchyChanges (compareHeadings b c) =
      map (\<lambda>k. \<lparr>hc_index = k,
                 hc_from = ''H'' @ show_nat (h_level (b ! k)),
                 hc_to = ''H'' @ show_nat (h_level (c ! k)),
                 hc_text = h_text (c ! k),
                 hc_selector = h_selector (c ! k),
                 hc_impact = (if h_level (b ! k) = 1 \<and> h_level (c ! k) \<noteq> 1 then Critical
                              else if h_level (b ! k) < h_level (c ! k) then Warning
                              else Improvement)\<rparr>)
        (filter (\<lambda>k. k < length c \<and> h_level (b ! k) \<noteq> h_level (c ! k)) [0..<length b]) \<and>
    (\<forall>i. length (filter (\<lambda>h. hc_index h = i) (hierarchyChanges (compareHeadings b c))) =
          (if i < length b \<and> i < length c \<and> h_level (b ! i) \<noteq> h_level (c ! i) then 1 else 0)) \<and>
    hd_modified (compareHeadings b c) =
      map (\<lambda>k. \<lparr>hm_index = k, hm_level = h_level (c ! k), hm_from = h_text (b ! k),
                 hm_to = h_text (c ! k), hm_selector = h_selector (c ! k)\<rparr>)
        (filter (\<lambda>k. k < length c \<and> h_level (b ! k) = h_level (c ! k) \<and> h_text (b ! k) \<noteq> h_text (c ! k))
           [0..<length b]) \<and>
    hd_added (compareHeadings b c) = drop (length b) c \<and>
    hd_removed (compareHeadings b c) = drop (length c) b"
proof -
  have "map (\<lambda>k. hierarchy_entry k (b ! k) (c ! k))
          (filter (\<lambda>k. k < length c \<and> h_level (b ! k) \<noteq> h_level (c ! k)) [0..<length b]) =
        map (\<lambda>k. \<lparr>hc_index = k,
                 hc_from = ''H'' @ show_nat (h_level (b ! k)),
                 hc_to = ''H'' @ show_nat (h_level (c ! k)),
                 hc_text = h_text (c ! k),
                 hc_selector = h_selector (c ! k),
                 hc_impact = (if h_level (b ! k) = 1 \<and> h_level (c ! k) \<noteq> 1 then Critical
                              else if h_level (b ! k) < h_level (c ! k) then Warning
                              else Improvement)\<rparr>)
          (filter (\<lambda>k. k < length c \<and> h_level (b ! k) \<noteq> h_level (c ! k)) [0..<length b])"
  proof (rule map_cong [OF refl])
    fix k
    assume "k \<in> set (filter (\<lambda>k. k < length c \<and> h_level (b ! k) \<noteq> h_level (c ! k)) [0..<length b])"
    then have k: "k < length c" and ne: "h_level (b ! k) \<noteq> h_level (c ! k)" by simp_all
    from k assms have "1 \<le> h_level (c ! k)" by simp
    with ne show "hierarchy_entry k (b ! k) (c ! k) =
       \<lparr>hc_index = k,
        hc_from = ''H'' @ show_nat (h_level (b ! k)),
        hc_to = ''H'' @ show_nat (h_level (c ! k)),
        hc_text = h_text (c ! k),
        hc_selector = h_selector (c ! k),
        hc_impact = (if h_level (b ! k) = 1 \<and> h_level (c ! k) \<noteq> 1 then Critical
                              else if h_level (b ! k) < h_level (c ! k) then Warning
                              else Improvement)\<rparr>"
      unfolding hierarchy_entry_def by (simp add: impact_of_mismatch)
  qed
  then have h: "hierarchyChanges (compareHeadings b c) =
      map (\<lambda>k. \<lparr>hc_index = k,
                 hc_from = ''H'' @ show_nat (h_level (b ! k)),
                 hc_to = ''H'' @ show_nat (h_level (c ! k)),
                 hc_text = h_text (c ! k),
                 hc_selector = h_selector (c ! k),
                 hc_impact = (if h_level (b ! k) = 1 \<and> h_level (c ! k) \<noteq> 1 then Critical
                              else if h_level (b ! k) < h_level (c ! k) then Warning
                              else Improvement)\<rparr>)
        (filter (\<lambda>k. k < length c \<and> h_level (b ! k) \<noteq> h_level (c ! k)) [0..<length b])"
    by (simp only: compareHeadings_hier)
  have m: "hd_modified (compareHeadings b c) =
      map (\<lambda>k. \<lparr>hm_index = k, hm_level = h_level (c ! k), hm_from = h_text (b ! k),
                 hm_to = h_text (c ! k), hm_selector = h_selector (c ! k)\<rparr>)
        (filter (\<lambda>k. k < length c \<and> h_level (b ! k) = h_level (c ! k) \<and> h_text (b ! k) \<noteq> h_text (c ! k))
           [0..<length b])"
    by (simp only: compareHeadings_modified modified_entry_def)
  from h m hier_count compareHeadings_added compareHeadings_removed show ?thesis by blast
qed

theorem C5_heading_diff_witness:
  "list_all (\<lambda>h. 1 \<le> h_level h)
     [mk_heading 3 ''Offers'' ''main > h3'' 0, mk_heading 2 ''Details'' ''main > h2'' 1] \<and>
   hierarchyChanges
     (compareHeadings [mk_heading 1 ''Offers'' ''main > h1'' 0, mk_heading 2 ''Details'' ''main > h2'' 1]
                      [mk_heading 3 ''Offers'' ''main > h3'' 0, mk_heading 2 ''Details'' ''main > h2'' 1]) =
     [\<lparr>hc_index = 0, hc_from = ''H1'', hc_to = ''H3'', hc_text = ''Offers'',
       hc_selector = ''main > h3'', hc_impact = Critical\<rparr>]"
  using C5_heading_diff [of "[mk_heading 3 ''Offers'' ''main > h3'' 0, mk_heading 2 ''Details'' ''main > h2'' 1]"
                            "[mk_heading 1 ''Offers'' ''main > h1'' 0, mk_heading 2 ''Details'' ''main > h2'' 1]"]
  by (simp add: mk_heading_def show_nat.simps digit_char_def)

section \<open>Properties of the correlation step\<close>


lemma styling_step_suspicious:
  "suspiciousChanges (styling_step pf cs entry acc) =
     suspiciousChanges acc @
       (case map_of cs (fst entry) of
          None \<Rightarrow> []
        | Some current \<Rightarrow>
            (case fold (property_step current) (snd entry) ([], False) of
               (propertyChanges, hasChanges) \<Rightarrow>
                 if hasChanges \<and> isSuspiciousStyling pf (fst entry) propertyChanges
                 then [\<lparr>su_selector = fst entry, su_reason = ''heading_impersonation'',
                        su_changes = propertyChanges\<rparr>]
                 else []))"
  by (cases entry) (simp add: styling_step_def Let_def split: option.split prod.split)

lemma styling_step_compensation:
  "hasCompensation (styling_step pf cs entry acc) =
     (hasCompensation acc \<or> suspiciousChanges (styling_step pf cs entry acc) \<noteq> suspiciousChanges acc)"
  by (cases entry) (simp add: styling_step_def Let_def split: option.split prod.split)

lemma fold_styling_suspicious:
  "suspiciousChanges (fold (styling_step pf cs) bs acc) =
     suspiciousChanges acc @
       concat (map (\<lambda>entry.
          case map_of cs (fst entry) of
            None \<Rightarrow> []
          | Some current \<Rightarrow>
              (case fold (property_step current) (snd entry) ([], False) of
                 (propertyChanges, hasChanges) \<Rightarrow>
                   if hasChanges \<and> isSuspiciousStyling pf (fst entry) propertyChanges
                   then [\<lparr>su_selector = fst entry, su_reason = ''heading_impersonation'',
                          su_changes = propertyChanges\<rparr>]
                   else [])) bs)"
  by (induction bs arbitrary: acc) (simp_all add: styling_step_suspicious)

lemma fold_styling_compensation:
  "hasCompensation (fold (styling_step pf cs) bs acc) =
     (hasCompensation acc \<or> suspiciousChanges (fold (styling_step pf cs) bs acc) \<noteq> suspiciousChanges acc)"
proof (induction bs arbitrary: acc)
  case Nil
  show ?case by simp
next
  case (Cons b bs)
  have grow: "\<exists>ys. suspiciousChanges (fold (styling_step pf cs) bs a) = suspiciousChanges a @ ys" for a
    by (simp add: fold_styling_suspicious)
  obtain ys where ys: "suspiciousChanges (fold (styling_step pf cs) bs (styling_step pf cs b acc)) =
      suspiciousChanges (styling_step pf cs b acc) @ ys"
    using grow by blast
  obtain zs where zs: "suspiciousChanges (styling_step pf cs b acc) = suspiciousChanges acc @ zs"
    by (simp add: styling_step_suspicious)
  show ?case
    by (simp add: Cons.IH [of "styling_step pf cs b acc"] styling_step_compensation [of pf cs b acc] ys zs)
qed

lemma compareStyling_compensation:
  "hasCompensation (compareStyling pf bs cs) = (suspiciousChanges (compareStyling pf bs cs) \<noteq> [])"
  unfolding compareStyling_def by (simp add: fold_styling_compensation)
















section \<open>Properties of the structure score\<close>

lemma heading_step_inv: "heading_inv ch \<Longrightarrow> heading_inv (heading_step c i b ch)"
  by (auto simp add: heading_inv_def heading_step_def js_index_def split: option.splits)

lemma forEach_heading_inv: "heading_inv ch \<Longrightarrow> heading_inv (forEach_index (heading_step c) bs i ch)"
  by (induction bs arbitrary: i ch) (simp_all add: heading_step_inv)

lemma compareHeadings_inv: "heading_inv (compareHeadings b c)"
proof -
  have "heading_inv (forEach_index (heading_step c) b 0 no_heading_changes)"
    by (rule forEach_heading_inv) (simp add: heading_inv_def no_heading_changes_def)
  then show ?thesis
    by (simp add: compareHeadings_def Let_def heading_inv_def)
qed

lemma fold_meta_baseline_inv: "meta_inv ch \<Longrightarrow> meta_inv (fold (meta_baseline_step cm) xs ch)"
  by (induction xs arbitrary: ch)
     (auto simp add: meta_inv_def meta_baseline_step_def split: option.splits prod.splits)

lemma fold_meta_current_inv: "meta_inv ch \<Longrightarrow> meta_inv (fold (meta_current_step bm) xs ch)"
  by (induction xs arbitrary: ch)
     (auto simp add: meta_inv_def meta_current_step_def split: option.splits prod.splits)

lemma compareMetaTags_inv: "meta_inv (compareMetaTags b c)"
  unfolding compareMetaTags_def Let_def
  by (intro fold_meta_current_inv fold_meta_baseline_inv) (simp add: meta_inv_def no_meta_changes_def)

lemma compareStructures_unchanged:
  assumes "\<not> sc_hasChanges (compareStructures b c)"
  shows "hierarchyChanges (headingChanges (compareStructures b c)) = [] \<and>
         hd_removed (headingChanges (compareStructures b c)) = [] \<and>
         mc_removed (metaTagChanges (compareStructures b c)) = [] \<and>
         mc_modified (metaTagChanges (compareStructures b c)) = []"
  using assms compareHeadings_inv [of "ps_headings b" "ps_headings c"]
    compareMetaTags_inv [of "ps_metaTags b" "ps_metaTags c"]
  by (simp add: compareStructures_def Let_def heading_inv_def meta_inv_def)

lemma score_arith:
  "(100::int) - 0 * 30 - 0 * 15 - 0 * 10 - 0 * 20 - 0 * 5 - x = 100 - x"
  by simp

lemma calculateStructureScore_eq:
  assumes "sc_hasChanges sc \<or>
             (hierarchyChanges (headingChanges sc) = [] \<and> hd_removed (headingChanges sc) = [] \<and>
              mc_removed (metaTagChanges sc) = [] \<and> mc_modified (metaTagChanges sc) = [])"
    and "case st of None \<Rightarrow> True | Some s \<Rightarrow> hasCompensation s = (suspiciousChanges s \<noteq> [])"
  shows "calculateStructureScore sc st =
     max 0 (100
       - int (length (filter (\<lambda>c. hc_impact c = Critical) (hierarchyChanges (headingChanges sc)))) * 30
       - int (length (filter (\<lambda>c. hc_impact c = Warning) (hierarchyChanges (headingChanges sc)))) * 15
       - int (length (hd_removed (headingChanges sc))) * 10
       - int (length (mc_removed (metaTagChanges sc))) * 20
       - int (length (mc_modified (metaTagChanges sc))) * 5
       - int (length (case st of None \<Rightarrow> [] | Some s \<Rightarrow> suspiciousChanges s)) * 25)"
proof (cases st)
  case None
  with assms(1) show ?thesis
    by (cases "sc_hasChanges sc") (simp_all add: calculateStructureScore_def Let_def)
next
  case (Some s)
  with assms(2) have h: "hasCompensation s = (suspiciousChanges s \<noteq> [])" by simp
  show ?thesis
  proof (cases "suspiciousChanges s = []")
    case True
    with h Some assms(1) show ?thesis
      by (cases "sc_hasChanges sc") (simp_all add: calculateStructureScore_def Let_def)
  next
    case False
    with h Some assms(1) show ?thesis
      by (cases "sc_hasChanges sc") (simp_all add: calculateStructureScore_def Let_def)
  qed
qed

text \<open>
  C6, amended. For the comparisons of a baseline and a current snapshot the score is 100
  minus 30 for each critical hierarchy change, 15 for each warning hierarchy change, 10 for
  each removed heading, 20 for each removed meta tag, 5 for each modified meta tag, and 25
  for each suspicious style change, whether or not a structural change matches it; floored
  at 0. Without a styling comparison nothing is subtracted for styles.
\<close>

theorem C6_structure_score:
  "calculateStructureScore (compareStructures b c) None =
     max 0 (100
       - int (length (filter (\<lambda>h. hc_impact h = Critical)
                        (hierarchyChanges (headingChanges (compareStructures b c))))) * 30
       - int (length (filter (\<lambda>h. hc_impact h = Warning)
                        (hierarchyChanges (headingChanges (compareStructures b c))))) * 15
       - int (length (hd_removed (headingChanges (compareStructures b c)))) * 10
       - int (length (mc_removed (metaTagChanges (compareStructures b c)))) * 20
       - int (length (mc_modified (metaTagChanges (compareStructures b c)))) * 5) \<and>
   calculateStructureScore (compareStructures b c) (Some (compareStyling pf bs cs)) =
     max 0 (100
       - int (length (filter (\<lambda>h. hc_impact h = Critical)
                        (hierarchyChanges (headingChanges (compareStructures b c))))) * 30
       - int (length (filter (\<lambda>h. hc_impact h = Warning)
                        (hierarchyChanges (headingChanges (compareStructures b c))))) * 15
       - int (length (hd_removed (headingChanges (compareStructures b c)))) * 10
       - int (length (mc_removed (metaTagChanges (compareStructures b c)))) * 20
       - int (length (mc_modified (metaTagChanges (compareStructures b c)))) * 5
       - int (length (suspiciousChanges (compareStyling pf bs cs))) * 25)"
proof -
  have a: "sc_hasChanges (compareStructures b c) \<or>
             (hierarchyChanges (headingChanges (compareStructures b c)) = [] \<and>
              hd_removed (headingChanges (compareStructures b c)) = [] \<and>
              mc_removed (metaTagChanges (compareStructures b c)) = [] \<and>
              mc_modified (metaTagChanges (compareStructures b c)) = [])"
    using compareStructures_unchanged [of b c] by blast
  have n: "case None :: styling_comparison option of None \<Rightarrow> True
           | Some s \<Rightarrow> hasCompensation s = (suspiciousChanges s \<noteq> [])"
    by simp
  have s: "case Some (compareStyling pf bs cs) of None \<Rightarrow> True
           | Some s \<Rightarrow> hasCompensation s = (suspiciousChanges s \<noteq> [])"
    by (simp add: compareStyling_compensation)
  from calculateStructureScore_eq [OF a n] calculateStructureScore_eq [OF a s]
  show ?thesis by simp
qed

lemma ex_unchanged:
  "compareStructures example_current example_current =
     \<lparr>sc_hasChanges = False, titleChanged = False,
      headingChanges = no_heading_changes,
      metaTagChanges = no_meta_changes,
      elementChanges = \<lparr>el_hasChanges = False, selectorChanges = []\<rparr>\<rparr>"
  by (simp add: compareStructures_def Let_def example_current_def compareHeadings_def mk_heading_def
       heading_step_def js_index_def no_heading_changes_def compareMetaTags_def
       compareImportantElements_def js_Map_def no_meta_changes_def)

lemma ex_styling_unmatched:
  "compareStyling parseFloat
      [(''h3'', [(''fontSize'', ''16px''), (''fontWeight'', ''400'')]),
       (''h3:nth-of-type(2)'', [(''fontSize'', ''32px''), (''fontWeight'', ''700'')])]
      example_current_styling =
   \<lparr>hasCompensation = True,
    styleChanges = [(''h3'', [(''fontSize'', \<lparr>st_from = ''16px'', st_to = Some ''32px''\<rparr>)])],
    suspiciousChanges = [\<lparr>su_selector = ''h3'', su_reason = ''heading_impersonation'',
       su_changes = [(''fontSize'', \<lparr>st_from = ''16px'', st_to = Some ''32px''\<rparr>)]\<rparr>]\<rparr>"
  by (simp add: compareStyling_def example_current_styling_def styling_step_def property_step_def
       isSuspiciousStyling_def matches_h2_h6_def isSignificantFontSizeIncrease_def js_to_string_def
       parseFloat_def digit_of_def digits_value_def Let_def)

text \<open>
  The claim C6 as stated fails: the structure is unchanged and the first heading doubles its
  font size, so there is a suspicious style change and no structural change to match it.
  The code subtracts 25 for it; the score the specification words is 100.
\<close>

theorem C6_counterexample:
  "calculateStructureScore (compareStructures example_current example_current)
     (Some (compareStyling parseFloat
              [(''h3'', [(''fontSize'', ''16px''), (''fontWeight'', ''400'')]),
               (''h3:nth-of-type(2)'', [(''fontSize'', ''32px''), (''fontWeight'', ''700'')])]
              example_current_styling)) = 75 \<and>
   spec_structure_score (compareStructures example_current example_current)
     (Some (compareStyling parseFloat
              [(''h3'', [(''fontSize'', ''16px''), (''fontWeight'', ''400'')]),
               (''h3:nth-of-type(2)'', [(''fontSize'', ''32px''), (''fontWeight'', ''700'')])]
              example_current_styling)) = 100"
  unfolding ex_unchanged ex_styling_unmatched
  by (simp add: calculateStructureScore_def spec_structure_score_def spec_correlated_manipulations_def
       no_heading_changes_def no_meta_changes_def Let_def)

section \<open>Properties of the visual regression detector\<close>














lemma pm_throws:
  assumes "png_width current = png_width baseline" "png_height current = png_height baseline"
    and "pm (png_data baseline) (png_data current) (png_width baseline) (png_height baseline) = Inl msg"
  shows "compareScreenshots pm writeError threshold (Inr baseline) (Inr current) diffPath = comparison_error msg"
  using assms unfolding compareScreenshots_def Let_def by (simp only: sum.case simp_thms if_False)

text \<open>
  C8. When decoding the baseline or the current image, or comparing the pixels, throws, no
  exception leaves \<open>compareScreenshots\<close>: it returns a comparison with hasChanges true and
  reason \<open>comparison_error\<close>. That comparison has no diffPercentage, so it is not treated
  as a maximal difference: \<open>processComparison\<close> files it as a minor change (a
  recommendation, no issue), and the score of an audit whose only comparison it is, is NaN.
\<close>

theorem C8_comparison_error:
  "compareScreenshots pm writeError threshold (Inl msg) currentFile diffPath = comparison_error msg \<and>
   compareScreenshots pm writeError threshold (Inr baseline) (Inl msg) diffPath = comparison_error msg \<and>
   cmp_hasChanges (comparison_error msg) \<and>
   cmp_reason (comparison_error msg) = ''comparison_error'' \<and>
   cmp_diffPercentage (comparison_error msg) = None \<and>
   processComparison
     ((comparison_error msg)\<lparr>cmp_element := element, cmp_viewport := viewport, cmp_url := url\<rparr>)
     (es, ws, rs) =
     (es, ws, rs @ [createRecommendation ''minor_visual_change''
                      (MinorVisualDetails element viewport None)]) \<and>
   calculateVisualScore
     [(comparison_error msg)\<lparr>cmp_element := element, cmp_viewport := viewport, cmp_url := url\<rparr>] = NaN"
proof (intro conjI)
  show "compareScreenshots pm writeError threshold (Inl msg) currentFile diffPath = comparison_error msg"
    unfolding compareScreenshots_def by (simp only: sum.case)
  show "compareScreenshots pm writeError threshold (Inr baseline) (Inl msg) diffPath = comparison_error msg"
    unfolding compareScreenshots_def by (simp only: sum.case)
  show "cmp_hasChanges (comparison_error msg)" by (simp add: comparison_error_def)
  show "cmp_reason (comparison_error msg) = ''comparison_error''" by (simp add: comparison_error_def)
  show "cmp_diffPercentage (comparison_error msg) = None" by (simp add: comparison_error_def)
  show "processComparison
     ((comparison_error msg)\<lparr>cmp_element := element, cmp_viewport := viewport, cmp_url := url\<rparr>)
     (es, ws, rs) =
     (es, ws, rs @ [createRecommendation ''minor_visual_change''
                      (MinorVisualDetails element viewport None)])"
    by (simp add: comparison_error_def processComparison_def)
  show "calculateVisualScore
     [(comparison_error msg)\<lparr>cmp_element := element, cmp_viewport := viewport, cmp_url := url\<rparr>] = NaN"
    by (simp add: comparison_error_def calculateVisualScore_def js_sub_def Let_def)
qed

text \<open>
  The run of C8 on a baseline file that does not decode: the comparison ends as a minor
  recommendation and the score of the audit is NaN.
\<close>

theorem C8_comparison_error_witness:
  "processComparison
     ((compareScreenshots exact_pixelmatch None (1 / 10) (Inl ''Invalid file signature'')
         (Inr white_1x2) ''diff.png'')
        \<lparr>cmp_element := ''fullpage'', cmp_viewport := ''desktop'', cmp_url := ''https://example.com''\<rparr>)
     ([], [], []) =
     ([], [], [createRecommendation ''minor_visual_change''
                 (MinorVisualDetails ''fullpage'' ''desktop'' None)]) \<and>
   va_score (visual_audit
     [(compareScreenshots exact_pixelmatch None (1 / 10) (Inl ''Invalid file signature'')
         (Inr white_1x2) ''diff.png'')
        \<lparr>cmp_element := ''fullpage'', cmp_viewport := ''desktop'', cmp_url := ''https://example.com''\<rparr>])
     = NaN"
proof -
  note t = C8_comparison_error [where pm = exact_pixelmatch and writeError = None
      and threshold = "1 / 10" and msg = "''Invalid file signature''" and currentFile = "Inr white_1x2"
      and diffPath = "''diff.png''" and element = "''fullpage''" and viewport = "''desktop''"
      and url = "''https://example.com''" and es = "[]" and ws = "[]" and rs = "[]"]
  note e = t [THEN conjunct1]
  note p = t [THEN conjunct2, THEN conjunct2, THEN conjunct2, THEN conjunct2, THEN conjunct2, THEN conjunct1]
  note s = t [THEN conjunct2, THEN conjunct2, THEN conjunct2, THEN conjunct2, THEN conjunct2, THEN conjunct2]
  have v: "va_score (visual_audit cs) = calculateVisualScore cs" for cs
    by (simp add: visual_audit_def split: prod.split)
  show ?thesis unfolding v e using p s by simp
qed

section \<open>Properties of the audit dispatch engine\<close>

lemma compile_step_issues:
  "cp_issues (compile_step url i (Fulfilled (runAuditorWithTimeout cfg name outcome)) cp) =
     cp_issues cp @ run_issues cfg url (i, name, outcome)"
  by (cases outcome)
     (simp_all add: compile_step_def runAuditorWithTimeout_def run_issues_def js_to_string_def)

lemma compile_step_warnings:
  "cp_warnings (compile_step url i (Fulfilled (runAuditorWithTimeout cfg name outcome)) cp) =
     cp_warnings cp @ (case outcome of Returns result \<Rightarrow> result_warnings result | _ \<Rightarrow> [])"
  by (cases outcome) (simp_all add: compile_step_def runAuditorWithTimeout_def)

lemma compile_step_recommendations:
  "cp_recommendations (compile_step url i (Fulfilled (runAuditorWithTimeout cfg name outcome)) cp) =
     cp_recommendations cp @ (case outcome of Returns result \<Rightarrow> result_recommendations result | _ \<Rightarrow> [])"
  by (cases outcome) (simp_all add: compile_step_def runAuditorWithTimeout_def)

lemma compile_step_findings:
  "cp_findings (compile_step url i (Fulfilled (runAuditorWithTimeout cfg name outcome)) cp) =
     (case outcome of
        Returns result \<Rightarrow> (cp_findings cp)(name \<mapsto> result_finding result)
      | _ \<Rightarrow> cp_findings cp)"
  by (cases outcome) (simp_all add: compile_step_def runAuditorWithTimeout_def)

lemma zip_upt_Cons: "zip [i..<i + Suc n] (x # xs) = (i, x) # zip [Suc i..<Suc i + n] xs"
  by (simp add: upt_conv_Cons del: upt_Suc)

lemma forEach_compile_issues:
  "cp_issues (forEach_index (compile_step url)
       (map (\<lambda>(name, outcome). Fulfilled (runAuditorWithTimeout cfg name outcome)) runs) i cp) =
     cp_issues cp @ concat (map (run_issues cfg url) (zip [i..<i + length runs] runs))"
proof (induction runs arbitrary: i cp)
  case Nil
  show ?case by simp
next
  case (Cons r runs)
  obtain name outcome where r: "r = (name, outcome)" by (cases r)
  have z: "zip [i..<i + length (r # runs)] (r # runs) = (i, r) # zip [Suc i..<Suc i + length runs] runs"
    using zip_upt_Cons [of i "length runs" r runs] by simp
  show ?case
    unfolding z by (simp add: r Cons.IH compile_step_issues)
qed

lemma forEach_compile_warnings:
  "cp_warnings (forEach_index (compile_step url)
       (map (\<lambda>(name, outcome). Fulfilled (runAuditorWithTimeout cfg name outcome)) runs) i cp) =
     cp_warnings cp @
       concat (map (\<lambda>(name, outcome). case outcome of Returns result \<Rightarrow> result_warnings result | _ \<Rightarrow> []) runs)"
  by (induction runs arbitrary: i cp) (auto simp add: compile_step_warnings)

lemma forEach_compile_recommendations:
  "cp_recommendations (forEach_index (compile_step url)
       (map (\<lambda>(name, outcome). Fulfilled (runAuditorWithTimeout cfg name outcome)) runs) i cp) =
     cp_recommendations cp @
       concat (map (\<lambda>(name, outcome). case outcome of Returns result \<Rightarrow> result_recommendations result | _ \<Rightarrow> [])
                 runs)"
  by (induction runs arbitrary: i cp) (auto simp add: compile_step_recommendations)

lemma forEach_compile_findings_other:
  "name \<notin> fst ` set runs \<Longrightarrow>
   cp_findings (forEach_index (compile_step url)
       (map (\<lambda>(name, outcome). Fulfilled (runAuditorWithTimeout cfg name outcome)) runs) i cp) name =
     cp_findings cp name"
proof (induction runs arbitrary: i cp)
  case Nil
  show ?case by simp
next
  case (Cons r runs)
  obtain n0 o0 where r: "r = (n0, o0)" by (cases r)
  with Cons.prems have ne: "n0 \<noteq> name" and rest: "name \<notin> fst ` set runs" by auto
  show ?case
    using ne by (simp add: r Cons.IH [OF rest] compile_step_findings split: plugin_outcome.split)
qed

lemma forEach_compile_findings:
  "distinct (map fst runs) \<Longrightarrow> (name, outcome) \<in> set runs \<Longrightarrow>
   cp_findings (forEach_index (compile_step url)
       (map (\<lambda>(name, outcome). Fulfilled (runAuditorWithTimeout cfg name outcome)) runs) i cp) name =
     (case outcome of Returns result \<Rightarrow> Some (result_finding result) | _ \<Rightarrow> cp_findings cp name)"
proof (induction runs arbitrary: i cp)
  case Nil
  then show ?case by simp
next
  case (Cons r runs)
  obtain n0 o0 where r: "r = (n0, o0)" by (cases r)
  from Cons.prems(1) r have d: "distinct (map fst runs)" and n0: "n0 \<notin> fst ` set runs" by auto
  show ?case
  proof (cases "(name, outcome) = (n0, o0)")
    case True
    then have e: "name = n0" "outcome = o0" by simp_all
    from n0 e have "name \<notin> fst ` set runs" by simp
    from forEach_compile_findings_other [OF this] show ?thesis
      by (simp add: r e compile_step_findings split: plugin_outcome.split)
  next
    case False
    with Cons.prems(2) r have m: "(name, outcome) \<in> set runs" by auto
    then have "name \<in> fst ` set runs" by force
    with n0 have ne: "n0 \<noteq> name" by auto
    show ?thesis
      using ne by (simp add: r Cons.IH [OF d m] compile_step_findings split: plugin_outcome.split)
  qed
qed

lemma AuditResult_recommendations:
  "ar_recommendations (AuditResult d) = (case d_recommendations d of None \<Rightarrow> [] | Some xs \<Rightarrow> xs)"
  unfolding AuditResult_def Let_def by (rule audit_result.select_convs)

lemma AuditResult_statusCode:
  "ar_statusCode (AuditResult d) = (case d_statusCode d of None \<Rightarrow> 0 | Some n \<Rightarrow> n)"
  unfolding AuditResult_def Let_def by (rule audit_result.select_convs)

lemma AuditResult_error:
  "ar_error (AuditResult d) = (case d_error d of None \<Rightarrow> None | Some e \<Rightarrow> if e = [] then None else Some e)"
  unfolding AuditResult_def Let_def by (rule audit_result.select_convs)

lemma AuditResult_url:
  "ar_url (AuditResult d) = (case d_url d of None \<Rightarrow> [] | Some u \<Rightarrow> u)"
  unfolding AuditResult_def Let_def by (rule audit_result.select_convs)

lemma navigate_first_response:
  assumes "env_goto env (gotoCalls st) = GotoReturns response"
  shows "navigateWithRetry env cfg url st =
           (Inr response, st\<lparr>gotoCalls := gotoCalls st + 1, events := events st @ [Navigate url]\<rparr>)"
  unfolding navigateWithRetry_def
  by (subst navigate_from.simps) (simp add: assms Let_def)

lemma auditSingleUrl_loaded:
  assumes "env_goto env (gotoCalls (applyRateLimit env st)) = GotoReturns (Some response)"
    and "gr_status response \<noteq> 429" and "gr_status response < 400"
  shows "fst (auditSingleUrl env cfg crawlResult options st) =
           run_auditors env cfg crawlResult options (gr_status response)"
proof -
  have n: "\<not> 400 \<le> gr_status response" using assms(3) by simp
  show ?thesis
    by (subst auditSingleUrl.simps)
       (simp only: navigate_first_response [OF assms(1)] assms(2) n Let_def prod.case sum.case
          option.case if_False fst_conv)
qed

lemma run_auditors_fields:
  "ar_success (run_auditors env cfg crawlResult options statusCode) \<and>
   ar_issues (run_auditors env cfg crawlResult options statusCode) =
     cp_issues (compileAuditResults
        (map (\<lambda>name. Fulfilled (runAuditorWithTimeout cfg name (env_plugin env name)))
           (enabledAuditors cfg options)) (cr_url crawlResult)) \<and>
   ar_warnings (run_auditors env cfg crawlResult options statusCode) =
     cp_warnings (compileAuditResults
        (map (\<lambda>name. Fulfilled (runAuditorWithTimeout cfg name (env_plugin env name)))
           (enabledAuditors cfg options)) (cr_url crawlResult)) \<and>
   ar_recommendations (run_auditors env cfg crawlResult options statusCode) =
     cp_recommendations (compileAuditResults
        (map (\<lambda>name. Fulfilled (runAuditorWithTimeout cfg name (env_plugin env name)))
           (enabledAuditors cfg options)) (cr_url crawlResult))"
  unfolding run_auditors_def Let_def
  by (simp add: AuditResult_success AuditResult_issues AuditResult_warnings AuditResult_recommendations)

lemma runs_of_names:
  "map (\<lambda>name. Fulfilled (runAuditorWithTimeout cfg name (f name))) names =
   map (\<lambda>(name, outcome). Fulfilled (runAuditorWithTimeout cfg name outcome))
     (map (\<lambda>name. (name, f name)) names)"
  by simp

text \<open>
  C9. Each auditor of a URL runs against its own timer, and whatever it does is one entry
  for the compilation. An auditor that times out or throws contributes exactly one issue
  \<open>audit_failure\<close> of severity error, at its place, and nothing else; an auditor that
  returns contributes its own issues, warnings and recommendations, and its result stands
  under its name key; so what one auditor does changes nothing of what its siblings
  contribute. The page-level result of a loaded page is a success compiled from all the
  enabled auditors, whatever any of them did.
\<close>

theorem C9_plugin_isolation:
  "cp_issues (compileAuditResults
       (map (\<lambda>(name, outcome). Fulfilled (runAuditorWithTimeout cfg name outcome)) runs) url) =
     concat (map (run_issues cfg url) (zip [0..<length runs] runs)) \<and>
   (\<forall>index name.
      run_issues cfg url (index, name, Sleeps) =
        [\<lparr>i_type = ''audit_failure'', i_severity = ''error'',
          i_auditor = Some (if name = [] then ''unknown'' else name),
          i_details = FailureDetails (if name = [] then ''unknown'' else name) url
             (name @ '' auditor timeout after '' @ show_nat (cfg_timeout cfg) @ ''ms'')
             ''fulfilled'' index\<rparr>]) \<and>
   (\<forall>index name msg.
      run_issues cfg url (index, name, Throws msg) =
        [\<lparr>i_type = ''audit_failure'', i_severity = ''error'',
          i_auditor = Some (if name = [] then ''unknown'' else name),
          i_details = FailureDetails (if name = [] then ''unknown'' else name) url msg
             ''fulfilled'' index\<rparr>]) \<and>
   (\<forall>index name result. run_issues cfg url (index, name, Returns result) = result_issues result) \<and>
   cp_warnings (compileAuditResults
       (map (\<lambda>(name, outcome). Fulfilled (runAuditorWithTimeout cfg name outcome)) runs) url) =
     concat (map (\<lambda>(name, outcome). case outcome of Returns result \<Rightarrow> result_warnings result | _ \<Rightarrow> [])
               runs) \<and>
   cp_recommendations (compileAuditResults
       (map (\<lambda>(name, outcome). Fulfilled (runAuditorWithTimeout cfg name outcome)) runs) url) =
     concat (map (\<lambda>(name, outcome). case outcome of Returns result \<Rightarrow> result_recommendations result | _ \<Rightarrow> [])
               runs) \<and>
   (distinct (map fst runs) \<longrightarrow>
      (\<forall>(name, outcome) \<in> set runs.
         cp_findings (compileAuditResults
             (map (\<lambda>(name, outcome). Fulfilled (runAuditorWithTimeout cfg name outcome)) runs) url) name =
           (case outcome of
              Returns result \<Rightarrow> Some (result_finding result)
            | _ \<Rightarrow> cp_findings empty_compiled name))) \<and>
   (env_goto env (gotoCalls (applyRateLimit env st)) = GotoReturns (Some response) \<and>
    gr_status response \<noteq> 429 \<and> gr_status response < 400 \<longrightarrow>
      ar_success (fst (auditSingleUrl env cfg crawlResult options st)) \<and>
      ar_issues (fst (auditSingleUrl env cfg crawlResult options st)) =
        concat (map (run_issues cfg (cr_url crawlResult))
                  (zip [0..<length (enabledAuditors cfg options)]
                     (map (\<lambda>name. (name, env_plugin env name)) (enabledAuditors cfg options)))) \<and>
      ar_warnings (fst (auditSingleUrl env cfg crawlResult options st)) =
        concat (map (\<lambda>name. case env_plugin env name of
                               Returns result \<Rightarrow> result_warnings result | _ \<Rightarrow> [])
                  (enabledAuditors cfg options)) \<and>
      ar_recommendations (fst (auditSingleUrl env cfg crawlResult options st)) =
        concat (map (\<lambda>name. case env_plugin env name of
                               Returns result \<Rightarrow> result_recommendations result | _ \<Rightarrow> [])
                  (enabledAuditors cfg options)))"
proof (intro conjI allI impI)
  show "cp_issues (compileAuditResults
       (map (\<lambda>(name, outcome). Fulfilled (runAuditorWithTimeout cfg name outcome)) runs) url) =
     concat (map (run_issues cfg url) (zip [0..<length runs] runs))"
    unfolding compileAuditResults_def
    using forEach_compile_issues [of url cfg runs 0 empty_compiled]
    by (simp add: empty_compiled_def)
  show "cp_warnings (compileAuditResults
       (map (\<lambda>(name, outcome). Fulfilled (runAuditorWithTimeout cfg name outcome)) runs) url) =
     concat (map (\<lambda>(name, outcome). case outcome of Returns result \<Rightarrow> result_warnings result | _ \<Rightarrow> [])
               runs)"
    unfolding compileAuditResults_def forEach_compile_warnings
    by (simp add: empty_compiled_def)
  show "cp_recommendations (compileAuditResults
       (map (\<lambda>(name, outcome). Fulfilled (runAuditorWithTimeout cfg name outcome)) runs) url) =
     concat (map (\<lambda>(name, outcome). case outcome of Returns result \<Rightarrow> result_recommendations result | _ \<Rightarrow> [])
               runs)"
    unfolding compileAuditResults_def forEach_compile_recommendations
    by (simp add: empty_compiled_def)
next
  fix index name
  show "run_issues cfg url (index, name, Sleeps) =
        [\<lparr>i_type = ''audit_failure'', i_severity = ''error'',
          i_auditor = Some (if name = [] then ''unknown'' else name),
          i_details = FailureDetails (if name = [] then ''unknown'' else name) url
             (name @ '' auditor timeout after '' @ show_nat (cfg_timeout cfg) @ ''ms'')
             ''fulfilled'' index\<rparr>]"
    by (simp add: run_issues_def audit_failure_def)
next
  fix index name msg
  show "run_issues cfg url (index, name, Throws msg) =
        [\<lparr>i_type = ''audit_failure'', i_severity = ''error'',
          i_auditor = Some (if name = [] then ''unknown'' else name),
          i_details = FailureDetails (if name = [] then ''unknown'' else name) url msg
             ''fulfilled'' index\<rparr>]"
    by (simp add: run_issues_def audit_failure_def)
next
  fix index name result
  show "run_issues cfg url (index, name, Returns result) = result_issues result"
    by (simp add: run_issues_def)
next
  assume d: "distinct (map fst runs)"
  show "\<forall>(name, outcome) \<in> set runs.
         cp_findings (compileAuditResults
             (map (\<lambda>(name, outcome). Fulfilled (runAuditorWithTimeout cfg name outcome)) runs) url) name =
           (case outcome of
              Returns result \<Rightarrow> Some (result_finding result)
            | _ \<Rightarrow> cp_findings empty_compiled name)"
    unfolding compileAuditResults_def
    using forEach_compile_findings [OF d, of _ _ url cfg 0 empty_compiled] by auto
next
  assume a: "env_goto env (gotoCalls (applyRateLimit env st)) = GotoReturns (Some response) \<and>
    gr_status response \<noteq> 429 \<and> gr_status response < 400"
  then have l: "fst (auditSingleUrl env cfg crawlResult options st) =
           run_auditors env cfg crawlResult options (gr_status response)"
    using auditSingleUrl_loaded by blast
  note f = run_auditors_fields [of env cfg crawlResult options "gr_status response"]
  show "ar_success (fst (auditSingleUrl env cfg crawlResult options st))"
    unfolding l using f by blast
  have i: "cp_issues (compileAuditResults
        (map (\<lambda>name. Fulfilled (runAuditorWithTimeout cfg name (env_plugin env name)))
           (enabledAuditors cfg options)) (cr_url crawlResult)) =
      concat (map (run_issues cfg (cr_url crawlResult))
                  (zip [0..<length (enabledAuditors cfg options)]
                     (map (\<lambda>name. (name, env_plugin env name)) (enabledAuditors cfg options))))"
    unfolding compileAuditResults_def runs_of_names
    using forEach_compile_issues [of "cr_url crawlResult" cfg
        "map (\<lambda>name. (name, env_plugin env name)) (enabledAuditors cfg options)" 0 empty_compiled]
    by (simp add: empty_compiled_def)
  show "ar_issues (fst (auditSingleUrl env cfg crawlResult options st)) =
        concat (map (run_issues cfg (cr_url crawlResult))
                  (zip [0..<length (enabledAuditors cfg options)]
                     (map (\<lambda>name. (name, env_plugin env name)) (enabledAuditors cfg options))))"
    unfolding l using f i by simp
  have w: "cp_warnings (compileAuditResults
        (map (\<lambda>name. Fulfilled (runAuditorWithTimeout cfg name (env_plugin env name)))
           (enabledAuditors cfg options)) (cr_url crawlResult)) =
      concat (map (\<lambda>name. case env_plugin env name of
                               Returns result \<Rightarrow> result_warnings result | _ \<Rightarrow> [])
                  (enabledAuditors cfg options))"
    unfolding compileAuditResults_def runs_of_names forEach_compile_warnings
    by (simp add: empty_compiled_def o_def)
  show "ar_warnings (fst (auditSingleUrl env cfg crawlResult options st)) =
        concat (map (\<lambda>name. case env_plugin env name of
                               Returns result \<Rightarrow> result_warnings result | _ \<Rightarrow> [])
                  (enabledAuditors cfg options))"
    unfolding l using f w by simp
  have r: "cp_recommendations (compileAuditResults
        (map (\<lambda>name. Fulfilled (runAuditorWithTimeout cfg name (env_plugin env name)))
           (enabledAuditors cfg options)) (cr_url crawlResult)) =
      concat (map (\<lambda>name. case env_plugin env name of
                               Returns result \<Rightarrow> result_recommendations result | _ \<Rightarrow> [])
                  (enabledAuditors cfg options))"
    unfolding compileAuditResults_def runs_of_names forEach_compile_recommendations
    by (simp add: empty_compiled_def o_def)
  show "ar_recommendations (fst (auditSingleUrl env cfg crawlResult options st)) =
        concat (map (\<lambda>name. case env_plugin env name of
                               Returns result \<Rightarrow> result_recommendations result | _ \<Rightarrow> [])
                  (enabledAuditors cfg options))"
    unfolding l using f r by simp
qed

lemma example_enabled:
  "enabledAuditors example_config example_options =
     [''canonical'', ''metaTags'', ''headings'', ''redirects'', ''brokenLinks'', ''structuredData'']"
  by (simp add: enabledAuditors_def initializeAuditors_def shouldRunAuditor_def example_config_def)

lemma show_nat_90000: "show_nat 90000 = ''90000''"
  by (simp add: show_nat.simps digit_char_def)

text \<open>
  The witness of C9: on the concrete page the meta tag auditor times out and the others
  finish; the page result is a success with the one failure issue of the meta tag auditor
  and the warning of the canonical auditor.
\<close>

theorem C9_plugin_isolation_witness:
  "ar_success (fst (auditSingleUrl slow_plugin_env example_config example_crawl example_options fresh_engine)) \<and>
   ar_issues (fst (auditSingleUrl slow_plugin_env example_config example_crawl example_options fresh_engine)) =
     [\<lparr>i_type = ''audit_failure'', i_severity = ''error'', i_auditor = Some ''metaTags'',
       i_details = FailureDetails ''metaTags'' ''https://example.com/''
          ''metaTags auditor timeout after 90000ms'' ''fulfilled'' 1\<rparr>] \<and>
   ar_warnings (fst (auditSingleUrl slow_plugin_env example_config example_crawl example_options fresh_engine)) =
     [canonical_warning]"
proof -
  have g: "env_goto slow_plugin_env (gotoCalls (applyRateLimit slow_plugin_env fresh_engine)) =
             GotoReturns (Some \<lparr>gr_status = 200, gr_statusText = ''OK''\<rparr>) \<and>
           gr_status \<lparr>gr_status = 200, gr_statusText = ''OK''\<rparr> \<noteq> 429 \<and>
           gr_status \<lparr>gr_status = 200, gr_statusText = ''OK''\<rparr> < 400"
    by (simp add: slow_plugin_env_def)
  note t = C9_plugin_isolation [where env = slow_plugin_env and cfg = example_config
      and crawlResult = example_crawl and options = example_options and st = fresh_engine
      and response = "\<lparr>gr_status = 200, gr_statusText = ''OK''\<rparr>",
      THEN conjunct2, THEN conjunct2, THEN conjunct2, THEN conjunct2, THEN conjunct2,
      THEN conjunct2, THEN conjunct2, rule_format, OF g]
  have p: "env_plugin slow_plugin_env ''metaTags'' = Sleeps \<and>
           env_plugin slow_plugin_env ''canonical'' =
             Returns (Some \<lparr>pr_issues = Some [], pr_warnings = Some [canonical_warning],
                          pr_recommendations = Some [], pr_payload = ''score: 90''\<rparr>) \<and>
           env_plugin slow_plugin_env ''headings'' = Returns None \<and>
           env_plugin slow_plugin_env ''redirects'' = Returns None \<and>
           env_plugin slow_plugin_env ''brokenLinks'' = Returns None \<and>
           env_plugin slow_plugin_env ''structuredData'' = Returns None"
    by (simp add: slow_plugin_env_def)
  have u: "cr_url example_crawl = ''https://example.com/''" by (simp add: example_crawl_def)
  have c: "cfg_timeout example_config = 90000" by (simp add: example_config_def)
  have z: "[0..<6] = [0, 1, 2, 3, 4, 5]" by (simp add: upt_rec)
  show ?thesis
    using t unfolding example_enabled
    by (simp add: p u c z run_issues_def audit_failure_def result_issues_def result_warnings_def
          show_nat_90000)
qed

lemma enabled_subset:
  "set (enabledAuditors cfg options) \<subseteq>
     {''canonical'', ''metaTags'', ''headings'', ''redirects'', ''brokenLinks'', ''structuredData'',
      ''performance'', ''accessibility''}"
  by (auto simp add: enabledAuditors_def initializeAuditors_def)

lemma detector_findings_absent:
  assumes "name \<notin> set (enabledAuditors cfg options)"
  shows "cp_findings (compileAuditResults
            (map (\<lambda>name. Fulfilled (runAuditorWithTimeout cfg name (env_plugin env name)))
               (enabledAuditors cfg options)) url) name = cp_findings empty_compiled name"
proof -
  have "name \<notin> fst ` set (map (\<lambda>name. (name, env_plugin env name)) (enabledAuditors cfg options))"
    using assms by (auto simp add: image_iff)
  from forEach_compile_findings_other [OF this, of url cfg 0 empty_compiled]
  show ?thesis unfolding compileAuditResults_def runs_of_names .
qed

text \<open>
  C2. The engine registers the six core auditors and, when configured, the performance and
  the accessibility auditor, and \<open>shouldRunAuditor\<close> admits no other name. Whatever the
  flags for structure comparison and visual regression are, in the configuration or in the
  options, neither detector is among the auditors run for a URL, and the compiled result
  has nothing under the keys "htmlStructure" and "visualRegression", which the summary and
  the reports read.
\<close>

theorem C2_detectors_not_dispatched:
  "''htmlStructure'' \<notin> set (initializeAuditors cfg) \<and>
   ''visualRegression'' \<notin> set (initializeAuditors cfg) \<and>
   \<not> shouldRunAuditor cfg ''htmlStructure'' options \<and>
   \<not> shouldRunAuditor cfg ''visualRegression'' options \<and>
   set (enabledAuditors cfg options) \<subseteq>
     {''canonical'', ''metaTags'', ''headings'', ''redirects'', ''brokenLinks'', ''structuredData'',
      ''performance'', ''accessibility''} \<and>
   cp_findings (compileAuditResults
       (map (\<lambda>name. Fulfilled (runAuditorWithTimeout cfg name (env_plugin env name)))
          (enabledAuditors cfg options)) url) ''htmlStructure'' = None \<and>
   cp_findings (compileAuditResults
       (map (\<lambda>name. Fulfilled (runAuditorWithTimeout cfg name (env_plugin env name)))
          (enabledAuditors cfg options)) url) ''visualRegression'' = None \<and>
   cfg_includeStructureComparison example_config \<and> cfg_includeVisualRegression example_config \<and>
   opt_includeStructureComparison example_options \<and> opt_includeVisualRegression example_options \<and>
   enabledAuditors example_config example_options =
     [''canonical'', ''metaTags'', ''headings'', ''redirects'', ''brokenLinks'', ''structuredData'']"
proof -
  have h: "''htmlStructure'' \<notin> set (enabledAuditors cfg options)"
    using enabled_subset [of cfg options] by auto
  have v: "''visualRegression'' \<notin> set (enabledAuditors cfg options)"
    using enabled_subset [of cfg options] by auto
  have e: "cp_findings empty_compiled ''htmlStructure'' = None \<and>
           cp_findings empty_compiled ''visualRegression'' = None"
    by (simp add: empty_compiled_def)
  have i: "''htmlStructure'' \<notin> set (initializeAuditors cfg) \<and>
           ''visualRegression'' \<notin> set (initializeAuditors cfg)"
    by (simp add: initializeAuditors_def)
  have s: "\<not> shouldRunAuditor cfg ''htmlStructure'' options \<and>
           \<not> shouldRunAuditor cfg ''visualRegression'' options"
    by (simp add: shouldRunAuditor_def)
  have x: "cfg_includeStructureComparison example_config \<and> cfg_includeVisualRegression example_config \<and>
   opt_includeStructureComparison example_options \<and> opt_includeVisualRegression example_options"
    by (simp add: example_config_def example_options_def)
  from i s enabled_subset [of cfg options]
    detector_findings_absent [OF h, of env url] detector_findings_absent [OF v, of env url] e x
    example_enabled
  show ?thesis by simp
qed

lemma navigate_first_response':
  assumes "env_goto env (gotoCalls st) = GotoReturns response"
  shows "navigateWithRetry env cfg url st = (Inr response, navigated url st)"
  unfolding navigated_def by (rule navigate_first_response [OF assms])

lemma rate_limited_attempt:
  assumes all429: "\<forall>k. \<exists>r. env_goto env k = GotoReturns (Some r) \<and> gr_status r = 429"
  shows "auditSingleUrl env cfg crawlResult options st =
           handleRateLimit env cfg crawlResult 429 (navigated (cr_url crawlResult) (applyRateLimit env st))"
proof -
  obtain r where r: "env_goto env (gotoCalls (applyRateLimit env st)) = GotoReturns (Some r)"
    and s: "gr_status r = 429"
    using all429 by blast
  show ?thesis
    by (subst auditSingleUrl.simps)
       (simp only: navigate_first_response' [OF r] s Let_def prod.case sum.case option.case
          simp_thms if_True)
qed

lemma handleRateLimit_retry:
  assumes "retry_count st (cr_url crawlResult) < 3"
  shows "handleRateLimit env cfg crawlResult statusCode st =
           auditSingleUrl env cfg crawlResult no_options (backed_off env cfg (cr_url crawlResult) st)"
proof -
  have n: "\<not> 3 \<le> retry_count st (cr_url crawlResult)" using assms by simp
  show ?thesis
    by (subst handleRateLimit.simps) (simp only: n Let_def if_False backed_off_def)
qed

lemma handleRateLimit_terminal:
  assumes "3 \<le> retry_count st (cr_url crawlResult)"
  shows "handleRateLimit env cfg crawlResult statusCode st = (rate_limit_exceeded crawlResult, st)"
  by (subst handleRateLimit.simps) (simp only: assms Let_def if_True)

lemma rate_limited_round_step:
  assumes all429: "\<forall>k. \<exists>r. env_goto env k = GotoReturns (Some r) \<and> gr_status r = 429"
    and "retry_count st (cr_url crawlResult) < 3"
  shows "auditSingleUrl env cfg crawlResult options st =
           auditSingleUrl env cfg crawlResult no_options
             (rate_limited_round env cfg (cr_url crawlResult) st)"
proof -
  have "retry_count (navigated (cr_url crawlResult) (applyRateLimit env st)) (cr_url crawlResult) < 3"
    using assms(2) by (simp add: navigated_def retry_count_def applyRateLimit_def Let_def)
  then have "handleRateLimit env cfg crawlResult 429 (navigated (cr_url crawlResult) (applyRateLimit env st)) =
      auditSingleUrl env cfg crawlResult no_options
        (backed_off env cfg (cr_url crawlResult) (navigated (cr_url crawlResult) (applyRateLimit env st)))"
    by (rule handleRateLimit_retry)
  with rate_limited_attempt [OF all429, of cfg crawlResult options st] show ?thesis
    unfolding rate_limited_round_def by (rule trans)
qed

lemma rate_limited_terminal:
  assumes all429: "\<forall>k. \<exists>r. env_goto env k = GotoReturns (Some r) \<and> gr_status r = 429"
    and "3 \<le> retry_count st (cr_url crawlResult)"
  shows "auditSingleUrl env cfg crawlResult options st =
           (rate_limit_exceeded crawlResult, navigated (cr_url crawlResult) (applyRateLimit env st))"
proof -
  have "3 \<le> retry_count (navigated (cr_url crawlResult) (applyRateLimit env st)) (cr_url crawlResult)"
    using assms(2) by (simp add: navigated_def retry_count_def applyRateLimit_def Let_def)
  then have "handleRateLimit env cfg crawlResult 429 (navigated (cr_url crawlResult) (applyRateLimit env st)) =
      (rate_limit_exceeded crawlResult, navigated (cr_url crawlResult) (applyRateLimit env st))"
    by (rule handleRateLimit_terminal)
  with rate_limited_attempt [OF all429, of cfg crawlResult options st] show ?thesis
    by (rule trans)
qed

lemma navigations_append: "navigations (xs @ ys) = navigations xs + navigations ys"
  by (induction xs rule: navigations.induct) simp_all

lemma rate_limit_sleeps_append: "rate_limit_sleeps (xs @ ys) = rate_limit_sleeps xs @ rate_limit_sleeps ys"
  by (induction xs rule: rate_limit_sleeps.induct) simp_all

lemma applyRateLimit_facts:
  "randomCalls (applyRateLimit env st) = randomCalls st + pacing_draws st \<and>
   requestCount (applyRateLimit env st) = requestCount st \<and>
   rateLimitRetries (applyRateLimit env st) = rateLimitRetries st \<and>
   navigations (events (applyRateLimit env st)) = navigations (events st) \<and>
   rate_limit_sleeps (events (applyRateLimit env st)) = rate_limit_sleeps (events st)"
  by (simp add: applyRateLimit_def pacing_draws_def Let_def navigations_append rate_limit_sleeps_append)

lemma navigated_facts:
  "randomCalls (navigated url st) = randomCalls st \<and>
   requestCount (navigated url st) = requestCount st \<and>
   rateLimitRetries (navigated url st) = rateLimitRetries st \<and>
   navigations (events (navigated url st)) = navigations (events st) + 1 \<and>
   rate_limit_sleeps (events (navigated url st)) = rate_limit_sleeps (events st)"
  by (simp add: navigated_def navigations_append rate_limit_sleeps_append)

lemma round_facts:
  "randomCalls (rate_limited_round env cfg url st) = randomCalls st + pacing_draws st + 1 \<and>
   requestCount (rate_limited_round env cfg url st) = requestCount st \<and>
   retry_count (rate_limited_round env cfg url st) url = retry_count st url + 1 \<and>
   rateLimitRetries (rate_limited_round env cfg url st) url = Some (retry_count st url + 1) \<and>
   navigations (events (rate_limited_round env cfg url st)) = navigations (events st) + 1 \<and>
   rate_limit_sleeps (events (rate_limited_round env cfg url st)) =
     rate_limit_sleeps (events st) @
       [min (cfg_rateLimitDelay cfg * 2 ^ retry_count st url) (cfg_maxRetryDelay cfg)
        + env_random env (randomCalls st + pacing_draws st) * 10000]"
proof -
  let ?s = "navigated url (applyRateLimit env st)"
  have a: "randomCalls ?s = randomCalls st + pacing_draws st" "requestCount ?s = requestCount st"
     "rateLimitRetries ?s = rateLimitRetries st" "navigations (events ?s) = navigations (events st) + 1"
     "rate_limit_sleeps (events ?s) = rate_limit_sleeps (events st)"
    using applyRateLimit_facts [of env st] navigated_facts [of url "applyRateLimit env st"] by simp_all
  have rc: "retry_count ?s url = retry_count st url" by (simp add: retry_count_def a)
  show ?thesis
    unfolding rate_limited_round_def backed_off_def
    by (simp add: a rc navigations_append rate_limit_sleeps_append retry_count_def)
qed

lemma pacing_draws_round: "pacing_draws (rate_limited_round env cfg url st) = pacing_draws st"
  using round_facts [of env cfg url st] by (simp add: pacing_draws_def)

lemma rate_limit_exceeded_fields:
  "\<not> ar_success (rate_limit_exceeded crawlResult) \<and>
   ar_statusCode (rate_limit_exceeded crawlResult) = 429 \<and>
   ar_error (rate_limit_exceeded crawlResult) = Some ''Rate limit exceeded - maximum retries reached'' \<and>
   ar_url (rate_limit_exceeded crawlResult) = cr_url crawlResult"
  unfolding rate_limit_exceeded_def
  by (simp add: AuditResult_success AuditResult_statusCode AuditResult_error AuditResult_url)

text \<open>
  C3. A URL whose every navigation attempt is answered with status 429, audited by an engine
  that holds no retry count for it yet. The task navigates four times, the first attempt and
  exactly three retries; before the retry with retry count n = 0, 1, 2 it sleeps
  min(rateLimitDelay * 2^n, maxRetryDelay) plus a random jitter below 10000 ms; then the
  count is 3, \<open>handleRateLimit\<close> navigates no more and returns the failed AuditResult with
  status code 429 and the error "Rate limit exceeded - maximum retries reached".
\<close>

theorem C3_rate_limit:
  assumes all429: "\<forall>k. \<exists>r. env_goto env k = GotoReturns (Some r) \<and> gr_status r = 429"
    and fresh: "rateLimitRetries st (cr_url crawlResult) = None"
  shows
   "fst (auditSingleUrl env cfg crawlResult options st) = rate_limit_exceeded crawlResult \<and>
    \<not> ar_success (rate_limit_exceeded crawlResult) \<and>
    ar_statusCode (rate_limit_exceeded crawlResult) = 429 \<and>
    ar_error (rate_limit_exceeded crawlResult) = Some ''Rate limit exceeded - maximum retries reached'' \<and>
    navigations (events (snd (auditSingleUrl env cfg crawlResult options st))) =
      navigations (events st) + 4 \<and>
    rate_limit_sleeps (events (snd (auditSingleUrl env cfg crawlResult options st))) =
      rate_limit_sleeps (events st) @
        [min (cfg_rateLimitDelay cfg * 2 ^ 0) (cfg_maxRetryDelay cfg)
           + env_random env (randomCalls st + pacing_draws st) * 10000,
         min (cfg_rateLimitDelay cfg * 2 ^ 1) (cfg_maxRetryDelay cfg)
           + env_random env (randomCalls st + 2 * pacing_draws st + 1) * 10000,
         min (cfg_rateLimitDelay cfg * 2 ^ 2) (cfg_maxRetryDelay cfg)
           + env_random env (randomCalls st + 3 * pacing_draws st + 2) * 10000] \<and>
    rateLimitRetries (snd (auditSingleUrl env cfg crawlResult options st)) (cr_url crawlResult) = Some 3 \<and>
    (\<forall>st'. 3 \<le> retry_count st' (cr_url crawlResult) \<longrightarrow>
            handleRateLimit env cfg crawlResult 429 st' = (rate_limit_exceeded crawlResult, st'))"
proof -
  let ?u = "cr_url crawlResult"
  define s1 where "s1 = rate_limited_round env cfg ?u st"
  define s2 where "s2 = rate_limited_round env cfg ?u s1"
  define s3 where "s3 = rate_limited_round env cfg ?u s2"
  define s4 where "s4 = navigated ?u (applyRateLimit env s3)"
  have r0: "retry_count st ?u = 0" using fresh by (simp add: retry_count_def)
  note f1 = round_facts [of env cfg ?u st, folded s1_def]
  note f2 = round_facts [of env cfg ?u s1, folded s2_def]
  note f3 = round_facts [of env cfg ?u s2, folded s3_def]
  have p1: "pacing_draws s1 = pacing_draws st" unfolding s1_def by (rule pacing_draws_round)
  have p2: "pacing_draws s2 = pacing_draws st" unfolding s2_def using p1 by (simp add: pacing_draws_round)
  have r1: "retry_count s1 ?u = 1" using f1 r0 by simp
  have r2: "retry_count s2 ?u = 2" using f2 r1 by simp
  have r3: "retry_count s3 ?u = 3" using f3 r2 by simp
  have e1: "auditSingleUrl env cfg crawlResult options st = auditSingleUrl env cfg crawlResult no_options s1"
    unfolding s1_def using r0 by (intro rate_limited_round_step [OF all429]) simp
  have e2: "auditSingleUrl env cfg crawlResult no_options s1 = auditSingleUrl env cfg crawlResult no_options s2"
    unfolding s2_def using r1 by (intro rate_limited_round_step [OF all429]) simp
  have e3: "auditSingleUrl env cfg crawlResult no_options s2 = auditSingleUrl env cfg crawlResult no_options s3"
    unfolding s3_def using r2 by (intro rate_limited_round_step [OF all429]) simp
  have e4: "auditSingleUrl env cfg crawlResult no_options s3 = (rate_limit_exceeded crawlResult, s4)"
    unfolding s4_def using r3 by (intro rate_limited_terminal [OF all429]) simp
  have e: "auditSingleUrl env cfg crawlResult options st = (rate_limit_exceeded crawlResult, s4)"
    using e1 e2 e3 e4 by simp
  have n4: "navigations (events s4) = navigations (events s3) + 1"
    and l4: "rate_limit_sleeps (events s4) = rate_limit_sleeps (events s3)"
    and m4: "rateLimitRetries s4 = rateLimitRetries s3"
    unfolding s4_def
    using applyRateLimit_facts [of env s3] navigated_facts [of ?u "applyRateLimit env s3"] by simp_all
  have nav: "navigations (events s4) = navigations (events st) + 4"
    using n4 f1 f2 f3 by simp
  have c1: "randomCalls s1 + pacing_draws s1 = randomCalls st + 2 * pacing_draws st + 1"
    using f1 p1 by simp
  have c2: "randomCalls s2 + pacing_draws s2 = randomCalls st + 3 * pacing_draws st + 2"
    using f1 f2 p1 p2 by simp
  have sl1: "rate_limit_sleeps (events s1) = rate_limit_sleeps (events st) @
      [min (cfg_rateLimitDelay cfg * 2 ^ 0) (cfg_maxRetryDelay cfg)
           + env_random env (randomCalls st + pacing_draws st) * 10000]"
    using f1 r0 by simp
  have sl2: "rate_limit_sleeps (events s2) = rate_limit_sleeps (events s1) @
      [min (cfg_rateLimitDelay cfg * 2 ^ 1) (cfg_maxRetryDelay cfg)
           + env_random env (randomCalls st + 2 * pacing_draws st + 1) * 10000]"
    using f2 r1 c1 by simp
  have sl3: "rate_limit_sleeps (events s3) = rate_limit_sleeps (events s2) @
      [min (cfg_rateLimitDelay cfg * 2 ^ 2) (cfg_maxRetryDelay cfg)
           + env_random env (randomCalls st + 3 * pacing_draws st + 2) * 10000]"
    using f3 r2 c2 by simp
  have sl: "rate_limit_sleeps (events s4) =
      rate_limit_sleeps (events st) @
        [min (cfg_rateLimitDelay cfg * 2 ^ 0) (cfg_maxRetryDelay cfg)
           + env_random env (randomCalls st + pacing_draws st) * 10000,
         min (cfg_rateLimitDelay cfg * 2 ^ 1) (cfg_maxRetryDelay cfg)
           + env_random env (randomCalls st + 2 * pacing_draws st + 1) * 10000,
         min (cfg_rateLimitDelay cfg * 2 ^ 2) (cfg_maxRetryDelay cfg)
           + env_random env (randomCalls st + 3 * pacing_draws st + 2) * 10000]"
    unfolding l4 sl3 sl2 sl1 by simp
  have m: "rateLimitRetries s4 ?u = Some 3"
    unfolding m4 using f3 r2 by simp
  have t: "\<forall>st'. 3 \<le> retry_count st' ?u \<longrightarrow>
            handleRateLimit env cfg crawlResult 429 st' = (rate_limit_exceeded crawlResult, st')"
    using handleRateLimit_terminal by blast
  from e nav sl m t rate_limit_exceeded_fields [of crawlResult] show ?thesis
    by (simp only: fst_conv snd_conv simp_thms)
qed

text \<open>
  The witness of C3: against the endpoint that always answers 429, with rateLimitDelay
  30000, maxRetryDelay 120000 and every random draw one half, a fresh engine navigates four
  times, sleeps 35000, 65000 and 125000 ms before the three retries, and fails the URL.
\<close>

theorem C3_rate_limit_witness:
  "\<not> ar_success (fst (auditSingleUrl rate_limited_env example_config example_crawl example_options
                        fresh_engine)) \<and>
   ar_statusCode (fst (auditSingleUrl rate_limited_env example_config example_crawl example_options
                        fresh_engine)) = 429 \<and>
   ar_error (fst (auditSingleUrl rate_limited_env example_config example_crawl example_options
                        fresh_engine)) = Some ''Rate limit exceeded - maximum retries reached'' \<and>
   navigations (events (snd (auditSingleUrl rate_limited_env example_config example_crawl
                        example_options fresh_engine))) = 4 \<and>
   rate_limit_sleeps (events (snd (auditSingleUrl rate_limited_env example_config example_crawl
                        example_options fresh_engine))) = [35000, 65000, 125000]"
proof -
  have a: "\<forall>k. \<exists>r. env_goto rate_limited_env k = GotoReturns (Some r) \<and> gr_status r = 429"
    by (simp add: rate_limited_env_def)
  have f: "rateLimitRetries fresh_engine (cr_url example_crawl) = None"
    by (simp add: fresh_engine_def)
  note t = C3_rate_limit [OF a f, of example_config example_options]
  have v: "pacing_draws fresh_engine = 1" "randomCalls fresh_engine = 0" "events fresh_engine = []"
    "cfg_rateLimitDelay example_config = 30000" "cfg_maxRetryDelay example_config = 120000"
    "env_random rate_limited_env = (\<lambda>k. 1 / 2)"
    by (simp_all add: pacing_draws_def fresh_engine_def example_config_def rate_limited_env_def)
  from t show ?thesis by (simp add: v)
qed

section \<open>Properties of the crawler engine\<close>

lemma link_step_grows:
  "set (discoveredUrls st) \<subseteq> set (discoveredUrls (link_step api cfg url depth baseDomain options lnk st))"
  by (auto simp add: link_step_def Let_def split: option.split)

lemma fold_link_step_grows:
  "set (discoveredUrls st) \<subseteq>
     set (discoveredUrls (fold (link_step api cfg url depth baseDomain options) links st))"
proof (induction links arbitrary: st)
  case Nil
  show ?case by simp
next
  case (Cons l links)
  from link_step_grows [of st api cfg url depth baseDomain options l]
    Cons.IH [of "link_step api cfg url depth baseDomain options l st"]
  show ?case by auto
qed

lemma crawlPage_grows:
  "set (discoveredUrls st) \<subseteq> set (discoveredUrls (crawlPage api env cfg url depth baseDomain options st))"
proof -
  obtain cached cache where cg:
    "cache_get (ce_fresh env) (''crawl:'' @ url) (linkCache (st\<lparr>visitedUrls := set_add url (visitedUrls st)\<rparr>))
       = (cached, cache)"
    by (cases "cache_get (ce_fresh env) (''crawl:'' @ url)
                 (linkCache (st\<lparr>visitedUrls := set_add url (visitedUrls st)\<rparr>))")
  let ?s = "st\<lparr>visitedUrls := set_add url (visitedUrls st), linkCache := cache\<rparr>"
  show ?thesis
  proof (cases cached)
    case (Some links)
    then have "crawlPage api env cfg url depth baseDomain options st =
        fold (link_step api cfg url depth baseDomain options) links ?s"
      using cg by (simp add: crawlPage_def Let_def)
    with fold_link_step_grows [of ?s api cfg url depth baseDomain options links] show ?thesis by simp
  next
    case None
    show ?thesis
    proof (cases "ce_fetch env url")
      case (Inl msg)
      then have "crawlPage api env cfg url depth baseDomain options st =
          ?s\<lparr>failedUrls := set_add url (failedUrls ?s)\<rparr>"
        using cg None by (simp add: crawlPage_def Let_def)
      then show ?thesis by simp
    next
      case (Inr links)
      let ?t = "?s\<lparr>linkCache := cache_set (''crawl:'' @ url) links (linkCache ?s)\<rparr>"
      from Inr have "crawlPage api env cfg url depth baseDomain options st =
          fold (link_step api cfg url depth baseDomain options) links ?t"
        using cg None by (simp add: crawlPage_def Let_def)
      with fold_link_step_grows [of ?t api cfg url depth baseDomain options links] show ?thesis by simp
    qed
  qed
qed

lemma crawl_loop_grows:
  "set (discoveredUrls st) \<subseteq> set (discoveredUrls (crawl_loop api env cfg baseDomain options st))"
proof (induction api env cfg baseDomain options st rule: crawl_loop.induct)
  case (1 api env cfg baseDomain options st)
  show ?case
  proof (cases "crawlQueue st")
    case Nil
    then show ?thesis by (subst crawl_loop.simps) simp
  next
    case (Cons x rest)
    obtain url depth where x: "x = (url, depth)" by (cases x)
    show ?thesis
    proof (cases "length (discoveredUrls st) < cc_maxUrls cfg")
      case False
      with Cons show ?thesis by (subst crawl_loop.simps) (simp add: x)
    next
      case lt: True
      show ?thesis
      proof (cases "url \<in> set (visitedUrls st) \<or> cc_maxDepth cfg < depth")
        case True
        from "1.IH"(1) [OF Cons x [symmetric] lt True]
        show ?thesis using Cons lt True by (subst crawl_loop.simps) (simp add: x)
      next
        case False
        from "1.IH"(2) [OF Cons x [symmetric] lt False]
          crawlPage_grows [of "st\<lparr>crawlQueue := rest\<rparr>" api env cfg url depth baseDomain options]
        show ?thesis using Cons lt False by (subst crawl_loop.simps) (auto simp add: x)
      qed
    qed
  qed
qed

lemma crawl_loop_at_limit:
  "cc_maxUrls cfg \<le> length (discoveredUrls st) \<Longrightarrow>
   crawl_loop api env cfg baseDomain options st = st"
  by (subst crawl_loop.simps) (simp split: list.split prod.split)

text \<open>
  C1. The discovered set only grows during the loop, and the loop fetches a page only while
  the set holds fewer than \<open>maxUrls\<close> URLs; but \<open>crawlPage\<close> adds every included link of
  the page it fetched without looking at \<open>maxUrls\<close>. With \<open>maxUrls\<close> = 2 and a landing
  page that links to three pages of its domain, the discovered set holds four URLs after
  the first page, and \<open>discoverUrls\<close> returns four results.
\<close>

theorem C1_maxUrls_exceeded:
  "cc_maxUrls two_urls_config = 2 \<and>
   map cr_url (fst (discoverUrls plain_url_api small_site two_urls_config ''https://example.com/''
      \<lparr>co_followExternalLinks = False\<rparr> new_crawler)) =
     [''https://example.com/'', ''https://example.com/a'', ''https://example.com/b'',
      ''https://example.com/c''] \<and>
   length (fst (discoverUrls plain_url_api small_site two_urls_config ''https://example.com/''
      \<lparr>co_followExternalLinks = False\<rparr> new_crawler)) = 4 \<and>
   length (discoveredUrls (snd (discoverUrls plain_url_api small_site two_urls_config
      ''https://example.com/'' \<lparr>co_followExternalLinks = False\<rparr> new_crawler))) = 4"
  by code_simp

end
